theory Spec2Isabelle
  imports Complex_Main "HOL-Library.Sublist"
begin

section \<open>Bytes and text\<close>

text \<open>
  A Python \<^verbatim>\<open>bytes\<close> value is a list of 8-bit characters, which is what a HOL
  \<open>string\<close> is. A Python \<^verbatim>\<open>str\<close> is carried as its UTF-8 bytes: concatenation,
  joining and a test for an ASCII prefix commute with the encoding, so that
  \<^verbatim>\<open>.encode()\<close> is the identity on this representation. (A \<^verbatim>\<open>str\<close> holding a lone
  surrogate, on which \<^verbatim>\<open>.encode()\<close> raises, has no representation here.) The one
  \<^verbatim>\<open>str\<close> whose characters the program counts and classifies, the decoded line of
  the stream, is a list of code points instead; see \<open>The text of a line\<close>.
\<close>

type_synonym bytes = string

definition CR :: char where "CR = CHR 0x0D"
definition LF :: char where "LF = CHR 0x0A"

definition crlf :: bytes where "crlf = [CR, LF]"

text \<open>The blank-line terminator \<^verbatim>\<open>b"\r\n\r\n"\<close>.\<close>

definition blank_line :: bytes where "blank_line = crlf @ crlf"

text \<open>\<^verbatim>\<open>needle in haystack\<close> on bytes: a contiguous occurrence.\<close>

definition bytes_in :: "bytes \<Rightarrow> bytes \<Rightarrow> bool" where
  "bytes_in needle haystack = sublist needle haystack"

section \<open>Serialising a command block: \<^verbatim>\<open>_ami_line\<close>\<close>

text \<open>
  The values of a command dictionary are \<^verbatim>\<open>str\<close> (\<^verbatim>\<open>"Originate"\<close>, the dial string) or
  \<^verbatim>\<open>int\<close> (\<^verbatim>\<open>PRIORITY\<close>, \<^verbatim>\<open>TIMEOUT_MS\<close>); the f-string \<^verbatim>\<open>f"{k}: {v}"\<close> renders
  an \<^verbatim>\<open>int\<close> in decimal.
\<close>

datatype ami_value = VStr string | VInt int

definition digit_char :: "nat \<Rightarrow> char" where
  "digit_char d = ''0123456789'' ! (d mod 10)"

fun str_of_nat :: "nat \<Rightarrow> string" where
  "str_of_nat n = (if n < 10 then [digit_char n] else str_of_nat (n div 10) @ [digit_char (n mod 10)])"

declare str_of_nat.simps [simp del]

definition str_of_int :: "int \<Rightarrow> string" where
  "str_of_int i = (if i < 0 then CHR ''-'' # str_of_nat (nat (- i)) else str_of_nat (nat i))"

fun format_value :: "ami_value \<Rightarrow> string" where
  "format_value (VStr s) = s"
| "format_value (VInt i) = str_of_int i"

text \<open>\<^verbatim>\<open>sep.join(parts)\<close>.\<close>

fun join :: "string \<Rightarrow> string list \<Rightarrow> string" where
  "join sep [] = []"
| "join sep [x] = x"
| "join sep (x # y # ys) = x @ sep @ join sep (y # ys)"

text \<open>
  A \<^verbatim>\<open>dict\<close> is given by its items in insertion order, which is the order
  \<^verbatim>\<open>cmd_dict.items()\<close> yields them in.
\<close>

type_synonym cmd_dict = "(string \<times> ami_value) list"

definition field_line :: "string \<times> ami_value \<Rightarrow> string" where
  "field_line kv = fst kv @ '': '' @ format_value (snd kv)"

definition ami_line :: "cmd_dict \<Rightarrow> bytes" where
  "ami_line cmd = join crlf (map field_line cmd) @ crlf @ crlf"


section \<open>Exceptions and results\<close>

text \<open>
  The classes of \<^verbatim>\<open>Exception\<close> the program can meet. \<^verbatim>\<open>RuntimeError\<close> carries which of
  the client's two messages it was raised with; \<open>OSError\<close> stands for the socket errors
  (refused, reset, \<^verbatim>\<open>socket.timeout\<close>); \<open>JSONDecodeError\<close> is the one class the
  subscriber catches around \<^verbatim>\<open>json.loads\<close>, and \<open>ValueError\<close> is a \<^verbatim>\<open>ValueError\<close> of
  any other class, which that handler does not catch; \<open>ClientError\<close> is
  \<^verbatim>\<open>aiohttp.ClientError\<close> with its subclasses; \<open>OtherException\<close> is every other
  \<^verbatim>\<open>Exception\<close> (\<^verbatim>\<open>RecursionError\<close> among them). Signals that are not an \<^verbatim>\<open>Exception\<close> (\<^verbatim>\<open>KeyboardInterrupt\<close>,
  \<^verbatim>\<open>SystemExit\<close>, task cancellation) are not modelled.
\<close>

datatype runtime_msg = AMI_connection_not_open | AMI_login_failed bytes

datatype exn =
    RuntimeError runtime_msg
  | OSError
  | ValueError
  | TypeError
  | OverflowError
  | AttributeError
  | JSONDecodeError
  | ClientError
  | OtherException

fun isinstance_ClientError :: "exn \<Rightarrow> bool" where
  "isinstance_ClientError ClientError = True"
| "isinstance_ClientError _ = False"

datatype 'a result = Return 'a | Raise exn

section \<open>JSON values and the conversions the dispatcher applies\<close>

text \<open>
  What \<^verbatim>\<open>json.loads\<close> returns. A \<^verbatim>\<open>float\<close> is finite (then it is a rational), an
  infinity or NaN. A \<^verbatim>\<open>dict\<close> is given by its items, whose keys are distinct. A
  \<^verbatim>\<open>str\<close> inside a document is carried as its encoding in UTF-8: the program compares
  the keys, hands the values to \<^verbatim>\<open>int\<close> and to the logger, and does nothing else
  with them.
\<close>

datatype pyfloat = Finite rat | PosInf | NegInf | NaN

datatype json =
    JNull
  | JBool bool
  | JInt int
  | JFloat pyfloat
  | JStr string
  | JList "json list"
  | JDict "(string \<times> json) list"

text \<open>\<^verbatim>\<open>msg.get(key, default)\<close>: only a \<^verbatim>\<open>dict\<close> has the method.\<close>

fun dict_get :: "json \<Rightarrow> string \<Rightarrow> json \<Rightarrow> json result" where
  "dict_get (JDict items) key dflt =
     Return (case map_of items key of None \<Rightarrow> dflt | Some v \<Rightarrow> v)"
| "dict_get _ key dflt = Raise AttributeError"

text \<open>
  \<^verbatim>\<open>int(x)\<close> on a value of a JSON document. What the builtin makes of a \<^verbatim>\<open>str\<close>
  (its spaces, sign, underscores, the decimal digits of every script, the limit on the
  number of digits) is the interpreter's and is given as \<open>conv\<close>: the integer, or
  \<open>None\<close> when \<^verbatim>\<open>int\<close> raises \<^verbatim>\<open>ValueError\<close>.
\<close>

fun py_int :: "(string \<Rightarrow> int option) \<Rightarrow> json \<Rightarrow> int result" where
  "py_int conv JNull = Raise TypeError"
| "py_int conv (JBool b) = Return (if b then 1 else 0)"
| "py_int conv (JInt i) = Return i"
| "py_int conv (JFloat (Finite r)) = Return (if 0 \<le> r then \<lfloor>r\<rfloor> else \<lceil>r\<rceil>)"
| "py_int conv (JFloat NaN) = Raise ValueError"
| "py_int conv (JFloat PosInf) = Raise OverflowError"
| "py_int conv (JFloat NegInf) = Raise OverflowError"
| "py_int conv (JStr s) = (case conv s of None \<Rightarrow> Raise ValueError | Some i \<Rightarrow> Return i)"
| "py_int conv (JList xs) = Raise TypeError"
| "py_int conv (JDict kvs) = Raise TypeError"

section \<open>The text of a line\<close>

text \<open>
  The \<^verbatim>\<open>str\<close> that a line of the stream decodes to is a list of code points, so that
  \<^verbatim>\<open>strip()\<close>, \<^verbatim>\<open>startswith\<close> and the slices \<^verbatim>\<open>[6:]\<close> and \<^verbatim>\<open>[:120]\<close> count
  characters. \<open>is_space\<close> is \<^verbatim>\<open>str.isspace\<close> on one character: the 29 code points of
  Unicode white space, which are what \<^verbatim>\<open>strip()\<close> removes from both ends.
\<close>

type_synonym str = "nat list"

definition ascii :: "string \<Rightarrow> str" where
  "ascii s = map of_char s"

definition is_space :: "nat \<Rightarrow> bool" where
  "is_space c =
     ((0x09 \<le> c \<and> c \<le> 0x0D) \<or> (0x1C \<le> c \<and> c \<le> 0x20) \<or> c = 0x85 \<or> c = 0xA0 \<or>
      c = 0x1680 \<or> (0x2000 \<le> c \<and> c \<le> 0x200A) \<or> c = 0x2028 \<or> c = 0x2029 \<or>
      c = 0x202F \<or> c = 0x205F \<or> c = 0x3000)"

definition strip :: "str \<Rightarrow> str" where
  "strip s = rev (dropWhile is_space (rev (dropWhile is_space s)))"

definition data_prefix :: str where
  "data_prefix = ascii ''data: ''"

section \<open>The world: a trace of effects, and an environment that answers\<close>

text \<open>
  Everything the program does to the outside is an event appended to a trace: a
  logging call, a socket operation, the HTTP request, a sleep. A socket is named by
  the position of the trace at which it was created.
\<close>

type_synonym socket = nat

datatype level = DEBUG | INFO | WARNING | ERROR

datatype log_msg =
    Subscribing string
  | Ntfy_message int json json
  | High_priority_detected
  | Originate_sent
  | AMI_originate_failed exn
  | Ignoring_non_JSON str
  | SSE_connection_error exn
  | Unexpected_error exn

datatype event =
    Log level log_msg
  | Connect string int
  | Recv socket nat
  | SetTimeout socket nat
  | SendAll socket bytes
  | SockClose socket
  | HttpGet string "string option"
  | Sleep nat

type_synonym world = "event list"

text \<open>
  The module-level configuration, read from the process environment when the module is
  loaded. (\<^verbatim>\<open>CHANNEL_TECH\<close> only makes the default of \<^verbatim>\<open>DIAL_STRING\<close>, and
  \<^verbatim>\<open>LOG_LEVEL\<close> only filters what the logger prints; the trace records every logging
  call.)
\<close>

record config =
  NTFY_URL :: string
  NTFY_TOPIC :: string
  NTFY_AUTH :: string
  EXTENSION :: string
  CALLERID :: string
  AMI_HOST :: string
  AMI_PORT :: int
  AMI_USER :: string
  AMI_PASS :: string
  DIAL_STRING :: string
  CONTEXT :: string
  PRIORITY :: int
  TIMEOUT_MS :: int

definition default_config :: config where
  "default_config =
     \<lparr>NTFY_URL = ''https://ntfy.sh'', NTFY_TOPIC = ''alerts'', NTFY_AUTH = [],
      EXTENSION = ''1000'', CALLERID = ''NTFY Bridge <7777>'',
      AMI_HOST = ''pbx'', AMI_PORT = 5038, AMI_USER = ''ntfybridge'', AMI_PASS = ''secret'',
      DIAL_STRING = ''PJSIP/1000'', CONTEXT = ''from-internal'', PRIORITY = 1,
      TIMEOUT_MS = 30000\<rparr>"

text \<open>
  One HTTP subscription, as the server and the network decide it: the request or
  \<^verbatim>\<open>raise_for_status()\<close> may raise; otherwise the body yields lines, and then ends or
  raises.
\<close>

record attempt =
  open_error :: "exn option"
  body_lines :: "bytes list"
  end_error :: "exn option"

text \<open>
  The environment decides the outcome of every operation on the outside. \<open>net env k\<close>
  is the outcome of the socket operation issued when the trace has length \<open>k\<close>
  (for \<^verbatim>\<open>recv\<close>, the bytes received; an empty result is the peer closing), and
  \<open>http env k\<close> is the subscription opened at that point. The library functions that
  read text are parameters as well: \<^verbatim>\<open>bytes.decode("utf-8", "ignore")\<close>, which cannot
  raise, \<^verbatim>\<open>json.loads\<close>, and \<^verbatim>\<open>int\<close> on a \<^verbatim>\<open>str\<close>.
\<close>

record env =
  cfg :: config
  net :: "nat \<Rightarrow> bytes result"
  http :: "nat \<Rightarrow> attempt"
  decode_utf8_ignore :: "bytes \<Rightarrow> str"
  json_loads :: "str \<Rightarrow> json result"
  int_str :: "string \<Rightarrow> int option"

definition logging :: "level \<Rightarrow> log_msg \<Rightarrow> world \<Rightarrow> unit result \<times> world" where
  "logging lvl m w = (Return (), w @ [Log lvl m])"

definition sleep :: "nat \<Rightarrow> world \<Rightarrow> unit result \<times> world" where
  "sleep n w = (Return (), w @ [Sleep n])"

definition create_connection :: "env \<Rightarrow> string \<Rightarrow> int \<Rightarrow> world \<Rightarrow> socket result \<times> world" where
  "create_connection env h p w =
     (case net env (length w) of Raise e \<Rightarrow> Raise e | Return _ \<Rightarrow> Return (length w),
      w @ [Connect h p])"

definition sock_recv :: "env \<Rightarrow> socket \<Rightarrow> nat \<Rightarrow> world \<Rightarrow> bytes result \<times> world" where
  "sock_recv env s n w =
     (case net env (length w) of Raise e \<Rightarrow> Raise e | Return d \<Rightarrow> Return (take n d),
      w @ [Recv s n])"

definition sock_sendall :: "env \<Rightarrow> socket \<Rightarrow> bytes \<Rightarrow> world \<Rightarrow> unit result \<times> world" where
  "sock_sendall env s d w =
     (case net env (length w) of Raise e \<Rightarrow> Raise e | Return _ \<Rightarrow> Return (),
      w @ [SendAll s d])"

definition sock_close :: "env \<Rightarrow> socket \<Rightarrow> world \<Rightarrow> unit result \<times> world" where
  "sock_close env s w =
     (case net env (length w) of Raise e \<Rightarrow> Raise e | Return _ \<Rightarrow> Return (),
      w @ [SockClose s])"

definition sock_settimeout :: "socket \<Rightarrow> nat \<Rightarrow> world \<Rightarrow> world" where
  "sock_settimeout s t w = w @ [SetTimeout s t]"

definition http_get :: "env \<Rightarrow> string \<Rightarrow> string option \<Rightarrow> world \<Rightarrow> attempt result \<times> world" where
  "http_get env url auth w =
     (case open_error (http env (length w)) of
        Some e \<Rightarrow> Raise e
      | None \<Rightarrow> Return (http env (length w)),
      w @ [HttpGet url auth])"

section \<open>Control flow\<close>

text \<open>
  A piece of program over a state \<open>'s\<close> returns a value or raises, in a new state; or it
  never returns, which is \<open>None\<close>. \<open>try_except\<close> is \<^verbatim>\<open>try: ... except Exception as e: ...\<close>,
  \<open>try_finally\<close> is \<^verbatim>\<open>try: ... finally: ...\<close>: the final block always runs, and an
  exception it raises replaces the outcome of the body.
\<close>

type_synonym ('s, 'a) prog = "'s \<Rightarrow> ('a result \<times> 's) option"

definition ret :: "'a \<Rightarrow> ('s, 'a) prog" where
  "ret x s = Some (Return x, s)"

definition raise :: "exn \<Rightarrow> ('s, 'a) prog" where
  "raise e s = Some (Raise e, s)"

definition bind :: "('s, 'a) prog \<Rightarrow> ('a \<Rightarrow> ('s, 'b) prog) \<Rightarrow> ('s, 'b) prog" where
  "bind m f s =
     (case m s of
        None \<Rightarrow> None
      | Some (Raise e, s') \<Rightarrow> Some (Raise e, s')
      | Some (Return x, s') \<Rightarrow> f x s')"

definition try_except :: "('s, 'a) prog \<Rightarrow> (exn \<Rightarrow> ('s, 'a) prog) \<Rightarrow> ('s, 'a) prog" where
  "try_except m h s =
     (case m s of
        None \<Rightarrow> None
      | Some (Raise e, s') \<Rightarrow> h e s'
      | Some (Return x, s') \<Rightarrow> Some (Return x, s'))"

definition try_finally :: "('s, 'a) prog \<Rightarrow> ('s, unit) prog \<Rightarrow> ('s, 'a) prog" where
  "try_finally m fin s =
     (case m s of
        None \<Rightarrow> None
      | Some (r, s') \<Rightarrow>
          (case fin s' of
             None \<Rightarrow> None
           | Some (Raise e, s'') \<Rightarrow> Some (Raise e, s'')
           | Some (Return u, s'') \<Rightarrow> Some (r, s'')))"

text \<open>An operation on the outside, and a pure computation that may raise.\<close>

definition io :: "(world \<Rightarrow> 'a result \<times> world) \<Rightarrow> (world, 'a) prog" where
  "io f w = Some (f w)"

definition lift :: "'a result \<Rightarrow> ('s, 'a) prog" where
  "lift r s = Some (r, s)"

section \<open>The control-protocol client: \<^verbatim>\<open>AMIClient\<close>\<close>

record AMIClient =
  host :: string
  port :: int
  username :: string
  secret :: string
  sock :: "socket option"

text \<open>A method runs on the object and the world.\<close>

type_synonym 'a client_prog = "(AMIClient \<times> world, 'a) prog"

definition on_world :: "(world \<Rightarrow> 'a result \<times> world) \<Rightarrow> 'a client_prog" where
  "on_world f = (\<lambda>(self, w). case f w of (r, w') \<Rightarrow> Some (r, self, w'))"

definition send :: "env \<Rightarrow> cmd_dict \<Rightarrow> unit client_prog" where
  "send env cmd = (\<lambda>(self, w).
     case sock self of
       None \<Rightarrow> raise (RuntimeError AMI_connection_not_open) (self, w)
     | Some s \<Rightarrow> on_world (sock_sendall env s (ami_line cmd)) (self, w))"

text \<open>
  The loop of \<^verbatim>\<open>_read_until_blank\<close>: receive a chunk; stop on an empty one; append it;
  stop when the terminator is in it. A peer that keeps sending chunks without one
  keeps the loop running.
\<close>

partial_function (option) read_loop ::
    "env \<Rightarrow> socket \<Rightarrow> bytes list \<Rightarrow> world \<Rightarrow> (bytes result \<times> world) option" where
  "read_loop env s chunks w =
     (case sock_recv env s 4096 w of
        (Raise e, w') \<Rightarrow> Some (Raise e, w')
      | (Return data, w') \<Rightarrow>
          if data = [] then Some (Return (concat chunks), w')
          else if bytes_in blank_line data then Some (Return (concat (chunks @ [data])), w')
          else read_loop env s (chunks @ [data]) w')"

definition read_until_blank :: "env \<Rightarrow> bytes client_prog" where
  "read_until_blank env = (\<lambda>(self, w).
     case sock self of
       None \<Rightarrow> raise (RuntimeError AMI_connection_not_open) (self, w)
     | Some s \<Rightarrow>
         (case read_loop env s [] (sock_settimeout s 10 w) of
            None \<Rightarrow> None
          | Some (r, w') \<Rightarrow> Some (r, self, w')))"

definition login_action :: "AMIClient \<Rightarrow> cmd_dict" where
  "login_action self =
     [(''Action'', VStr ''Login''), (''Username'', VStr (username self)),
      (''Secret'', VStr (secret self)), (''Events'', VStr ''off'')]"

definition connect :: "env \<Rightarrow> unit client_prog" where
  "connect env = (\<lambda>(self, w).
     case create_connection env (host self) (port self) w of
       (Raise e, w') \<Rightarrow> Some (Raise e, self, w')
     | (Return s, w') \<Rightarrow>
         bind (on_world (sock_recv env s 4096)) (\<lambda>_.
         bind (send env (login_action self)) (\<lambda>_.
         bind (read_until_blank env) (\<lambda>response.
           if \<not> bytes_in ''Success'' response
           then raise (RuntimeError (AMI_login_failed response))
           else ret ())))
         (self\<lparr>sock := Some s\<rparr>, w'))"

definition logoff_action :: cmd_dict where
  "logoff_action = [(''Action'', VStr ''Logoff'')]"

definition close :: "env \<Rightarrow> unit client_prog" where
  "close env =
     try_finally
       (try_except
          (\<lambda>(self, w). if sock self \<noteq> None then send env logoff_action (self, w)
                        else ret () (self, w))
          (\<lambda>e. ret ()))
       (\<lambda>(self, w).
          case sock self of
            None \<Rightarrow> ret () (self, w)
          | Some s \<Rightarrow>
              try_finally (on_world (sock_close env s))
                (\<lambda>(self, w). ret () (self\<lparr>sock := None\<rparr>, w)) (self, w))"

definition originate_action ::
    "string \<Rightarrow> string \<Rightarrow> string \<Rightarrow> int \<Rightarrow> string \<Rightarrow> int \<Rightarrow> cmd_dict" where
  "originate_action channel exten context priority callerid timeout_ms =
     [(''Action'', VStr ''Originate''), (''Channel'', VStr channel),
      (''Context'', VStr context), (''Exten'', VStr exten), (''Priority'', VInt priority),
      (''CallerID'', VStr callerid), (''Timeout'', VInt timeout_ms),
      (''Async'', VStr ''true'')]"

definition originate_simple ::
    "env \<Rightarrow> string \<Rightarrow> string \<Rightarrow> string \<Rightarrow> int \<Rightarrow> string \<Rightarrow> int \<Rightarrow> unit client_prog" where
  "originate_simple env channel exten context priority callerid timeout_ms =
     bind (send env (originate_action channel exten context priority callerid timeout_ms))
       (\<lambda>_. bind (read_until_blank env) (\<lambda>_. ret ()))"

section \<open>The dispatcher: \<^verbatim>\<open>handle_ntfy_msg\<close>\<close>

definition new_AMIClient :: "string \<Rightarrow> int \<Rightarrow> string \<Rightarrow> string \<Rightarrow> AMIClient" where
  "new_AMIClient h p u s = \<lparr>host = h, port = p, username = u, secret = s, sock = None\<rparr>"

text \<open>Running methods on a fresh object, which is dropped afterwards.\<close>

definition with_object :: "AMIClient \<Rightarrow> 'a client_prog \<Rightarrow> (world, 'a) prog" where
  "with_object obj m w =
     (case m (obj, w) of None \<Rightarrow> None | Some (r, obj', w') \<Rightarrow> Some (r, w'))"

definition originate_configured :: "env \<Rightarrow> unit client_prog" where
  "originate_configured env =
     originate_simple env (DIAL_STRING (cfg env)) (EXTENSION (cfg env)) (CONTEXT (cfg env))
       (PRIORITY (cfg env)) (CALLERID (cfg env)) (TIMEOUT_MS (cfg env))"

text \<open>
  The statements under \<^verbatim>\<open>if prio >= 4\<close> that follow its log line. \<open>call_attempt\<close>
  is the \<^verbatim>\<open>try\<close> block with its \<^verbatim>\<open>except Exception as exc\<close> handler; \<open>dispatch\<close>
  creates the client and runs the attempt with the \<^verbatim>\<open>finally\<close> block, which closes the
  client inside a \<^verbatim>\<open>try\<close> of its own.
\<close>

definition call_attempt :: "env \<Rightarrow> unit client_prog" where
  "call_attempt env =
     try_except
       (bind (connect env) (\<lambda>_.
        bind (originate_configured env) (\<lambda>_.
        on_world (logging INFO Originate_sent))))
       (\<lambda>exc. on_world (logging ERROR (AMI_originate_failed exc)))"

definition configured_client :: "env \<Rightarrow> AMIClient" where
  "configured_client env =
     new_AMIClient (AMI_HOST (cfg env)) (AMI_PORT (cfg env))
       (AMI_USER (cfg env)) (AMI_PASS (cfg env))"

definition dispatch :: "env \<Rightarrow> (world, unit) prog" where
  "dispatch env =
     with_object (configured_client env)
       (try_finally (call_attempt env) (try_except (close env) (\<lambda>_. ret ())))"

definition handle_ntfy_msg :: "env \<Rightarrow> json \<Rightarrow> (world, unit) prog" where
  "handle_ntfy_msg env msg =
     bind (lift (dict_get msg ''priority'' (JInt 3))) (\<lambda>pv.
     bind (lift (py_int (int_str env) pv)) (\<lambda>prio.
     bind (lift (dict_get msg ''title'' (JStr []))) (\<lambda>title.
     bind (lift (dict_get msg ''message'' (JStr []))) (\<lambda>body.
     bind (io (logging INFO (Ntfy_message prio title body))) (\<lambda>_.
     if prio \<ge> 4 then
       bind (io (logging INFO High_priority_detected)) (\<lambda>_. dispatch env)
     else ret ())))))"

section \<open>The subscriber: \<^verbatim>\<open>subscribe_ntfy\<close>\<close>

definition rstrip_slash :: "string \<Rightarrow> string" where
  "rstrip_slash s = rev (dropWhile (\<lambda>c. c = CHR ''/'') (rev s))"

definition sse_url :: "config \<Rightarrow> string" where
  "sse_url c = rstrip_slash (NTFY_URL c) @ ''/'' @ NTFY_TOPIC c @ ''/sse''"

text \<open>
  The credentials of \<^verbatim>\<open>ntfy_session\<close>: present when \<^verbatim>\<open>NTFY_AUTH\<close> is not empty (they
  travel base64-encoded in the \<^verbatim>\<open>Authorization\<close> header).
\<close>

definition ntfy_session :: "config \<Rightarrow> string option" where
  "ntfy_session c = (if NTFY_AUTH c \<noteq> [] then Some (NTFY_AUTH c) else None)"

text \<open>
  The body of \<^verbatim>\<open>async for line in resp.content\<close>, over the lines of one response.
  The \<^verbatim>\<open>try\<close> around the decoding has no raising path, since invalid bytes are
  dropped; of the exceptions of \<^verbatim>\<open>json.loads\<close> only \<^verbatim>\<open>JSONDecodeError\<close> is caught.
\<close>

primrec stream_loop :: "env \<Rightarrow> bytes list \<Rightarrow> (world, unit) prog" where
  "stream_loop env [] = ret ()"
| "stream_loop env (line # rest) =
     (let decoded = strip (decode_utf8_ignore env line) in
      if \<not> prefix data_prefix decoded then stream_loop env rest
      else
        let payload = drop 6 decoded in
        case json_loads env payload of
          Raise e \<Rightarrow>
            if e = JSONDecodeError
            then bind (io (logging DEBUG (Ignoring_non_JSON (take 120 payload))))
                   (\<lambda>_. stream_loop env rest)
            else raise e
        | Return msg \<Rightarrow> bind (handle_ntfy_msg env msg) (\<lambda>_. stream_loop env rest))"

definition subscribe_ntfy :: "env \<Rightarrow> (world, unit) prog" where
  "subscribe_ntfy env =
     bind (io (logging INFO (Subscribing (sse_url (cfg env))))) (\<lambda>_.
     bind (io (http_get env (sse_url (cfg env)) (ntfy_session (cfg env)))) (\<lambda>resp.
     bind (stream_loop env (body_lines resp)) (\<lambda>_.
     case end_error resp of None \<Rightarrow> ret () | Some e \<Rightarrow> raise e)))"

section \<open>The supervisor: \<^verbatim>\<open>main\<close>\<close>

text \<open>One turn of \<^verbatim>\<open>while True\<close>: the \<^verbatim>\<open>try\<close> statement with its two handlers.\<close>

definition main_body :: "env \<Rightarrow> (world, unit) prog" where
  "main_body env =
     try_except (subscribe_ntfy env)
       (\<lambda>err.
          if isinstance_ClientError err
          then bind (io (logging WARNING (SSE_connection_error err))) (\<lambda>_. io (sleep 3))
          else bind (io (logging ERROR (Unexpected_error err))) (\<lambda>_. io (sleep 5)))"

partial_function (option) main :: "env \<Rightarrow> world \<Rightarrow> (unit result \<times> world) option" where
  "main env w =
     (case main_body env w of
        None \<Rightarrow> None
      | Some (Raise e, w') \<Rightarrow> Some (Raise e, w')
      | Some (Return u, w') \<Rightarrow> main env w')"

text \<open>
  \<open>None\<close> is all that \<open>main\<close> can tell of a loop that goes on; the first \<open>n\<close> turns of
  the loop tell what it has done by then.
\<close>

primrec main_turns :: "nat \<Rightarrow> env \<Rightarrow> (world, unit) prog" where
  "main_turns 0 env = ret ()"
| "main_turns (Suc n) env = bind (main_body env) (\<lambda>_. main_turns n env)"

section \<open>Observations on traces and on the peer\<close>

text \<open>The payloads handed to \<^verbatim>\<open>sendall\<close>, in order.\<close>

primrec sends :: "world \<Rightarrow> bytes list" where
  "sends [] = []"
| "sends (e # w) = (case e of SendAll s d \<Rightarrow> d # sends w | _ \<Rightarrow> sends w)"

text \<open>
  The summary line the dispatcher logs for an event with the given fields, once it has
  its priority: \<^verbatim>\<open>title\<close> and \<^verbatim>\<open>message\<close> default to the empty text.
\<close>

definition summary :: "int \<Rightarrow> (string \<times> json) list \<Rightarrow> event" where
  "summary prio items =
     Log INFO (Ntfy_message prio
       (case map_of items ''title'' of None \<Rightarrow> JStr [] | Some t \<Rightarrow> t)
       (case map_of items ''message'' of None \<Rightarrow> JStr [] | Some b \<Rightarrow> b))"

text \<open>The bytes of the configured Originate command.\<close>

definition originate_block :: "env \<Rightarrow> bytes" where
  "originate_block env =
     ami_line (originate_action (DIAL_STRING (cfg env)) (EXTENSION (cfg env))
       (CONTEXT (cfg env)) (PRIORITY (cfg env)) (CALLERID (cfg env)) (TIMEOUT_MS (cfg env)))"

text \<open>
  The client and the trace of a dispatch started at \<open>w\<close>, once the connection is open,
  the banner read and the login command sent: the state in which \<open>connect\<close> reads the
  login reply.
\<close>

definition login_sent :: "env \<Rightarrow> world \<Rightarrow> AMIClient \<times> world" where
  "login_sent env w =
     ((configured_client env)\<lparr>sock := Some (length w)\<rparr>,
      w @ [Connect (AMI_HOST (cfg env)) (AMI_PORT (cfg env)), Recv (length w) 4096,
           SendAll (length w) (ami_line (login_action (configured_client env)))])"

text \<open>
  What \<open>close\<close> does on the outside: nothing without a socket, else the logoff send and
  the closing of the socket.
\<close>

definition closing_events :: "AMIClient \<Rightarrow> event list" where
  "closing_events self =
     (case sock self of
        None \<Rightarrow> []
      | Some s \<Rightarrow> [SendAll s (ami_line logoff_action), SockClose s])"

text \<open>
  A \<^verbatim>\<open>recv\<close> outcome that ends the loop of \<^verbatim>\<open>_read_until_blank\<close>: an error (the
  timeout among them), the peer closing, or a chunk that holds the terminator. The
  peer stops when, from every point on, such an outcome is still to come: only a peer
  that sends chunks without the terminator for ever does not stop.
\<close>

definition recv_ends :: "bytes result \<Rightarrow> bool" where
  "recv_ends r =
     (case r of
        Raise e \<Rightarrow> True
      | Return d \<Rightarrow> take 4096 d = [] \<or> bytes_in blank_line (take 4096 d))"

definition peer_stops :: "env \<Rightarrow> bool" where
  "peer_stops env = (\<forall>n. \<exists>k\<ge>n. recv_ends (net env k))"

section \<open>Example environments\<close>

text \<open>
  Concrete environments on which the theorems below are evaluated. Their library
  functions are told on the texts of the examples only. The decoder is \<open>ascii\<close>, which
  is what an ASCII line decodes to. The reader of JSON knows the empty object, the
  document \<^verbatim>\<open>{"priority": 5}\<close> and a number of 4301 digits, which \<^verbatim>\<open>json.loads\<close>
  refuses with \<^verbatim>\<open>ValueError\<close> because of the limit on the digits of an integer; it
  answers every other text with \<^verbatim>\<open>JSONDecodeError\<close>. \<^verbatim>\<open>int\<close> knows the literal
  \<^verbatim>\<open>5\<close> and refuses every other text.
\<close>

definition alert_bytes :: bytes where
  "alert_bytes = ''{'' @ [CHR 0x22] @ ''priority'' @ [CHR 0x22] @ '': 5}''"

definition alert_payload :: str where
  "alert_payload = ascii alert_bytes"

definition alert :: json where
  "alert = JDict [(''priority'', JInt 5)]"

definition long_number :: str where
  "long_number = replicate 4301 (of_char (CHR ''1''))"

definition loads_known :: "str \<Rightarrow> json result" where
  "loads_known s =
     (if s = ascii ''{}'' then Return (JDict [])
      else if s = alert_payload then Return alert
      else if s = long_number then Raise ValueError
      else Raise JSONDecodeError)"

definition int_known :: "string \<Rightarrow> int option" where
  "int_known s = (if s = ''5'' then Some 5 else None)"

definition no_stream :: attempt where
  "no_stream = \<lparr>open_error = Some ClientError, body_lines = [], end_error = None\<rparr>"

definition env_of_net :: "(nat \<Rightarrow> bytes result) \<Rightarrow> env" where
  "env_of_net f =
     \<lparr>cfg = default_config, net = f, http = (\<lambda>k. no_stream),
      decode_utf8_ignore = ascii, json_loads = loads_known, int_str = int_known\<rparr>"

text \<open>
  A script names the outcomes of the socket operations at some trace positions; at
  every other position the operation succeeds, and a \<^verbatim>\<open>recv\<close> finds the peer closed.
\<close>

definition scripted :: "(nat \<times> bytes result) list \<Rightarrow> env" where
  "scripted script =
     env_of_net (\<lambda>k. case map_of script k of Some r \<Rightarrow> r | None \<Rightarrow> Return [])"

definition success_reply :: bytes where
  "success_reply = ''Response: Success'' @ crlf @ ''Message: Authentication accepted'' @ crlf @ crlf"

definition error_reply :: bytes where
  "error_reply = ''Response: Error'' @ crlf @ ''Message: Authentication failed'' @ crlf @ crlf"


definition rejecting_env :: env where
  "rejecting_env = scripted [(6, Return error_reply)]"

definition originate_fails_env :: env where
  "originate_fails_env = scripted [(6, Return success_reply), (7, Raise OSError)]"

text \<open>
  A stream that yields one keep-alive line and is then cut with an error that is not
  an HTTP client error; the server behind it is down.
\<close>

definition cut_stream :: attempt where
  "cut_stream = \<lparr>open_error = None, body_lines = ['': keepalive''], end_error = Some OSError\<rparr>"

definition cut_env :: env where
  "cut_env =
     \<lparr>cfg = default_config, net = (\<lambda>k. Raise OSError), http = (\<lambda>k. cut_stream),
      decode_utf8_ignore = ascii, json_loads = loads_known, int_str = int_known\<rparr>"

text \<open>Every socket operation fails: the server is down.\<close>

definition down_env :: env where
  "down_env = env_of_net (\<lambda>k. Raise OSError)"

text \<open>Every socket operation succeeds but the one issued at trace position \<open>n\<close>.\<close>

definition fails_at :: "nat \<Rightarrow> env" where
  "fails_at n = env_of_net (\<lambda>k. if k = n then Raise OSError else Return [])"

text \<open>
  The login reply arrives in two segments, the second of which is the blank line's
  CRLF; nothing follows, so that the next read times out.
\<close>

definition split_env :: env where
  "split_env =
     env_of_net (\<lambda>k. if k = 1 then Return (''Response: Success'' @ crlf)
                      else if k = 2 then Return crlf
                      else Raise OSError)"

text \<open>A frame whose payload is the number of 4301 digits.\<close>

definition long_number_line :: bytes where
  "long_number_line = ''data: '' @ replicate 4301 (CHR ''1'')"

definition pbx_client :: AMIClient where
  "pbx_client = new_AMIClient ''pbx'' 5038 ''ntfybridge'' ''secret''"

section \<open>Serialisation is exact\<close>




section \<open>The client without an open socket\<close>

lemma send_not_open:
  "sock self = None \<Longrightarrow>
   send env cmd (self, w) = Some (Raise (RuntimeError AMI_connection_not_open), self, w)"
  by (simp add: send_def raise_def)

lemma read_until_blank_not_open:
  "sock self = None \<Longrightarrow>
   read_until_blank env (self, w) =
     Some (Raise (RuntimeError AMI_connection_not_open), self, w)"
  by (simp add: read_until_blank_def raise_def)

lemma close_not_open:
  "sock self = None \<Longrightarrow> close env (self, w) = Some (Return (), self, w)"
  by (simp add: close_def try_finally_def try_except_def ret_def)

lemma close_open:
  assumes "sock self = Some s"
  shows "close env (self, w) =
     Some (fst (sock_close env s (snd (sock_sendall env s (ami_line logoff_action) w))),
           self\<lparr>sock := None\<rparr>,
           snd (sock_close env s (snd (sock_sendall env s (ami_line logoff_action) w))))"
proof -
  obtain r1 w1 where s1: "sock_sendall env s (ami_line logoff_action) w = (r1, w1)"
    by (cases "sock_sendall env s (ami_line logoff_action) w")
  obtain r2 w2 where s2: "sock_close env s w1 = (r2, w2)"
    by (cases "sock_close env s w1")
  show ?thesis
    using assms s1 s2
    by (cases r1; cases r2)
       (simp_all add: close_def try_finally_def try_except_def ret_def send_def on_world_def)
qed

lemma close_clears_sock:
  "\<exists>r self' w'. close env (self, w) = Some (r, self', w') \<and> sock self' = None"
proof (cases "sock self")
  case None
  then show ?thesis by (simp add: close_not_open)
next
  case (Some s)
  then show ?thesis by (simp add: close_open)
qed

text \<open>
  C10. On a client whose socket is not open (it never connected, or \<open>close\<close> has run,
  which always leaves the socket field \<open>None\<close>) sending, reading and therefore
  \<open>originate_simple\<close> raise \<^verbatim>\<open>RuntimeError("AMI connection not open")\<close>, and touch
  neither the object nor the world.
\<close>

theorem not_open_raises_RuntimeError:
  "(\<exists>r self' w'. close env (self, w) = Some (r, self', w') \<and> sock self' = None) \<and>
   (sock self = None \<longrightarrow>
      send env cmd (self, w) =
        Some (Raise (RuntimeError AMI_connection_not_open), self, w) \<and>
      read_until_blank env (self, w) =
        Some (Raise (RuntimeError AMI_connection_not_open), self, w) \<and>
      originate_simple env channel exten context priority callerid timeout_ms (self, w) =
        Some (Raise (RuntimeError AMI_connection_not_open), self, w))"
proof (intro conjI impI)
  show "\<exists>r self' w'. close env (self, w) = Some (r, self', w') \<and> sock self' = None"
    by (rule close_clears_sock)
next
  assume "sock self = None"
  then show "send env cmd (self, w) =
      Some (Raise (RuntimeError AMI_connection_not_open), self, w)"
    by (rule send_not_open)
next
  assume "sock self = None"
  then show "read_until_blank env (self, w) =
      Some (Raise (RuntimeError AMI_connection_not_open), self, w)"
    by (rule read_until_blank_not_open)
next
  assume "sock self = None"
  then show "originate_simple env channel exten context priority callerid timeout_ms (self, w) =
      Some (Raise (RuntimeError AMI_connection_not_open), self, w)"
    by (simp add: originate_simple_def bind_def send_not_open)
qed

theorem not_open_raises_RuntimeError_witness:
  "sock pbx_client = None \<and>
   send down_env logoff_action (pbx_client, []) =
     Some (Raise (RuntimeError AMI_connection_not_open), pbx_client, []) \<and>
   read_until_blank down_env (pbx_client, []) =
     Some (Raise (RuntimeError AMI_connection_not_open), pbx_client, []) \<and>
   originate_simple down_env ''PJSIP/1000'' ''1000'' ''from-internal'' 1 ''NTFY'' 30000
       (pbx_client, []) =
     Some (Raise (RuntimeError AMI_connection_not_open), pbx_client, [])"
  using not_open_raises_RuntimeError [of down_env pbx_client "[]" logoff_action
      "''PJSIP/1000''" "''1000''" "''from-internal''" 1 "''NTFY''" 30000]
  by (simp add: pbx_client_def new_AMIClient_def)

section \<open>Closing\<close>

text \<open>
  C8, as the code has it. \<open>close\<close> swallows every failure of the logoff send, then
  closes the socket if there is one and clears the socket field; what it returns or
  raises is what the socket's own \<^verbatim>\<open>close()\<close> returns or raises. On a client without an
  open socket (never connected, or closed before) it does nothing and raises nothing.
\<close>

theorem close_outcome:
  "(sock self = None \<longrightarrow> close env (self, w) = Some (Return (), self, w)) \<and>
   (\<forall>s. sock self = Some s \<longrightarrow>
      close env (self, w) =
        Some (fst (sock_close env s (snd (sock_sendall env s (ami_line logoff_action) w))),
              self\<lparr>sock := None\<rparr>,
              snd (sock_close env s (snd (sock_sendall env s (ami_line logoff_action) w))))) \<and>
   (\<forall>r self' w'. close env (self, w) = Some (r, self', w') \<longrightarrow>
      close env (self', w') = Some (Return (), self', w'))"
proof -
  have "close env (self', w') = Some (Return (), self', w')"
    if "close env (self, w) = Some (r, self', w')" for r self' w'
  proof -
    from close_clears_sock [of env self w] that have "sock self' = None" by auto
    then show ?thesis by (rule close_not_open)
  qed
  then show ?thesis
    by (simp add: close_not_open close_open)
qed

text \<open>
  The logoff send fails and the socket closes: nothing is raised, and a second call
  does nothing. A client that never connected: nothing happens.
\<close>

theorem close_outcome_witness:
  "sock pbx_client = None \<and>
   close (fails_at 1) (pbx_client, []) = Some (Return (), pbx_client, []) \<and>
   sock (pbx_client\<lparr>sock := Some 0\<rparr>) = Some 0 \<and>
   close (fails_at 1) (pbx_client\<lparr>sock := Some 0\<rparr>, [Connect ''pbx'' 5038]) =
     Some (Return (), pbx_client,
           [Connect ''pbx'' 5038, SendAll 0 (ami_line logoff_action), SockClose 0]) \<and>
   close (fails_at 1)
       (pbx_client, [Connect ''pbx'' 5038, SendAll 0 (ami_line logoff_action), SockClose 0]) =
     Some (Return (), pbx_client,
           [Connect ''pbx'' 5038, SendAll 0 (ami_line logoff_action), SockClose 0])"
  using close_outcome [of pbx_client "fails_at 1" "[]"]
    close_outcome [of "pbx_client\<lparr>sock := Some 0\<rparr>" "fails_at 1" "[Connect ''pbx'' 5038]"]
  by (simp add: pbx_client_def new_AMIClient_def fails_at_def env_of_net_def
      sock_close_def sock_sendall_def)

text \<open>
  The claim as stated fails: when the socket's own \<^verbatim>\<open>close()\<close> raises, \<open>close\<close>
  raises.
\<close>

theorem close_raises_counterexample:
  "close (fails_at 2) (pbx_client\<lparr>sock := Some 0\<rparr>, [Connect ''pbx'' 5038]) =
     Some (Raise OSError, pbx_client,
           [Connect ''pbx'' 5038, SendAll 0 (ami_line logoff_action), SockClose 0])"
  by (simp add: close_open pbx_client_def new_AMIClient_def fails_at_def env_of_net_def
      sock_close_def sock_sendall_def)

section \<open>The read loop\<close>

lemma sends_append [simp]: "sends (a @ b) = sends a @ sends b"
  by (induction a) (auto split: event.splits)

lemma read_loop_raise:
  "net env (length w) = Raise e \<Longrightarrow>
   read_loop env s chunks w = Some (Raise e, w @ [Recv s 4096])"
  by (subst read_loop.simps) (simp add: sock_recv_def)

lemma read_loop_eof:
  "net env (length w) = Return d \<Longrightarrow> take 4096 d = [] \<Longrightarrow>
   read_loop env s chunks w = Some (Return (concat chunks), w @ [Recv s 4096])"
  by (subst read_loop.simps) (simp add: sock_recv_def)

lemma read_loop_blank:
  "net env (length w) = Return d \<Longrightarrow> take 4096 d \<noteq> [] \<Longrightarrow> bytes_in blank_line (take 4096 d) \<Longrightarrow>
   read_loop env s chunks w = Some (Return (concat (chunks @ [take 4096 d])), w @ [Recv s 4096])"
  by (subst read_loop.simps) (simp add: sock_recv_def)

lemma read_loop_more:
  "net env (length w) = Return d \<Longrightarrow> take 4096 d \<noteq> [] \<Longrightarrow> \<not> bytes_in blank_line (take 4096 d) \<Longrightarrow>
   read_loop env s chunks w = read_loop env s (chunks @ [take 4096 d]) (w @ [Recv s 4096])"
  by (subst read_loop.simps) (simp add: sock_recv_def)

lemma read_loop_ends_now:
  assumes "recv_ends (net env (length w))"
  shows "\<exists>y. read_loop env s chunks w = Some y"
proof (cases "net env (length w)")
  case (Raise e)
  then show ?thesis by (simp only: read_loop_raise [OF Raise]) blast
next
  case (Return d)
  show ?thesis
  proof (cases "take 4096 d = []")
    case True
    show ?thesis by (simp only: read_loop_eof [OF Return True]) blast
  next
    case False
    with Return assms have "bytes_in blank_line (take 4096 d)"
      by (simp add: recv_ends_def)
    then show ?thesis by (simp only: read_loop_blank [OF Return False]) blast
  qed
qed

lemma read_loop_terminates:
  "recv_ends (net env k) \<Longrightarrow> length w \<le> k \<Longrightarrow> \<exists>y. read_loop env s chunks w = Some y"
proof (induction "k - length w" arbitrary: w chunks)
  case 0
  then have "k = length w" by simp
  with 0 show ?case using read_loop_ends_now by blast
next
  case (Suc n)
  show ?case
  proof (cases "recv_ends (net env (length w))")
    case True
    then show ?thesis by (rule read_loop_ends_now)
  next
    case False
    then obtain d where d: "net env (length w) = Return d" "take 4096 d \<noteq> []"
      "\<not> bytes_in blank_line (take 4096 d)"
      by (auto simp: recv_ends_def split: result.splits)
    from Suc.hyps(2) have eq: "n = k - length (w @ [Recv s 4096])" by simp
    from Suc.hyps(2) have le: "length (w @ [Recv s 4096]) \<le> k" by simp
    have "\<exists>y. read_loop env s (chunks @ [take 4096 d]) (w @ [Recv s 4096]) = Some y"
      by (rule Suc.hyps(1) [OF eq Suc.prems(1) le])
    then show ?thesis by (simp only: read_loop_more [OF d])
  qed
qed

lemma read_loop_frame:
  assumes "read_loop env s chunks w = Some y"
  shows "\<exists>new. snd y = w @ new \<and> set new = {Recv s 4096}"
proof (rule read_loop.raw_induct
    [where P = "\<lambda>env s chunks w y. \<exists>new. snd y = w @ new \<and> set new = {Recv s 4096}",
      OF _ assms], goal_cases)
  case (1 approx env s chunks w y)
  have one: "\<exists>new. snd y = w @ new \<and> set new = {Recv s 4096}"
    if "snd y = w @ [Recv s 4096]"
  proof -
    from that have "snd y = w @ [Recv s 4096] \<and> set [Recv s 4096] = {Recv s 4096}"
      by simp
    then show ?thesis by (rule exI)
  qed
  show ?case
  proof (cases "net env (length w)")
    case (Raise e)
    with 1(2) have "y = (Raise e, w @ [Recv s 4096])"
      by (simp add: sock_recv_def)
    then show ?thesis by (simp add: one)
  next
    case (Return d)
    with 1(2) have body:
      "(if take 4096 d = [] then Some (Return (concat chunks), w @ [Recv s 4096])
        else if bytes_in blank_line (take 4096 d)
             then Some (Return (concat (chunks @ [take 4096 d])), w @ [Recv s 4096])
             else approx env s (chunks @ [take 4096 d]) (w @ [Recv s 4096])) = Some y"
      by (simp add: sock_recv_def)
    show ?thesis
    proof (cases "take 4096 d = []")
      case True
      with body have "y = (Return (concat chunks), w @ [Recv s 4096])" by simp
      then show ?thesis by (simp add: one)
    next
      case False
      note nonempty = this
      show ?thesis
      proof (cases "bytes_in blank_line (take 4096 d)")
        case True
        with body nonempty
        have "y = (Return (concat (chunks @ [take 4096 d])), w @ [Recv s 4096])" by simp
        then show ?thesis by (simp add: one)
      next
        case False
        with body nonempty
        have "approx env s (chunks @ [take 4096 d]) (w @ [Recv s 4096]) = Some y" by simp
        then have "\<exists>new. snd y = (w @ [Recv s 4096]) @ new \<and> set new = {Recv s 4096}"
          by (rule 1(1))
        then obtain new where new: "snd y = (w @ [Recv s 4096]) @ new" "set new = {Recv s 4096}"
          by (elim exE conjE)
        then have "snd y = w @ (Recv s 4096 # new) \<and> set (Recv s 4096 # new) = {Recv s 4096}"
          by simp
        then show ?thesis by (rule exI)
      qed
    qed
  qed
qed

lemma read_until_blank_open:
  "sock c = Some s \<Longrightarrow>
   read_until_blank env (c, w) =
     (case read_loop env s [] (w @ [SetTimeout s 10]) of
        None \<Rightarrow> None
      | Some (r, w') \<Rightarrow> Some (r, c, w'))"
  by (simp add: read_until_blank_def sock_settimeout_def)

lemma read_until_blank_frame:
  assumes "read_until_blank env (c, w) = Some (r, c', w')"
  shows "c' = c \<and> (\<exists>new. w' = w @ new \<and> sends new = [])"
proof (cases "sock c")
  case None
  with assms show ?thesis by (simp add: read_until_blank_not_open)
next
  case (Some s)
  with assms obtain y where y: "read_loop env s [] (w @ [SetTimeout s 10]) = Some y"
    and r: "c' = c" "w' = snd y"
    by (auto simp: read_until_blank_open split: option.splits)
  from read_loop_frame [OF y] obtain new where
    new: "snd y = (w @ [SetTimeout s 10]) @ new" "set new = {Recv s 4096}" by blast
  have "sends new = []" if "set new \<subseteq> {Recv s 4096}" for new
    using that by (induction new) auto
  with new have "sends new = []" by simp
  with new r show ?thesis by simp
qed

lemma read_until_blank_terminates:
  assumes "peer_stops env"
  shows "\<exists>r w'. read_until_blank env (c, w) = Some (r, c, w')"
proof (cases "sock c")
  case None
  then show ?thesis by (simp add: read_until_blank_not_open)
next
  case (Some s)
  from assms obtain k where "k \<ge> length (w @ [SetTimeout s 10])" "recv_ends (net env k)"
    unfolding peer_stops_def by blast
  then obtain y where "read_loop env s [] (w @ [SetTimeout s 10]) = Some y"
    using read_loop_terminates by blast
  with Some show ?thesis by (cases y) (simp add: read_until_blank_open)
qed

text \<open>
  C6 at a terminator split across two segments. The accumulated bytes hold the blank
  line after the second read, yet the reader reads a third time, and that read's
  timeout is what comes out.
\<close>

theorem read_until_blank_split_terminator:
  "bytes_in blank_line ((''Response: Success'' @ crlf) @ crlf) \<and>
   read_until_blank split_env (pbx_client\<lparr>sock := Some 0\<rparr>, []) =
     Some (Raise OSError, pbx_client\<lparr>sock := Some 0\<rparr>,
           [SetTimeout 0 10, Recv 0 4096, Recv 0 4096, Recv 0 4096])"
  by (simp add: read_until_blank_def sock_settimeout_def pbx_client_def new_AMIClient_def
      read_loop.simps sock_recv_def split_env_def env_of_net_def crlf_def CR_def LF_def
      bytes_in_def blank_line_def sublist_Cons_right)

section \<open>Connecting, originating, dispatching: what each step leaves behind\<close>

lemma close_world:
  "\<exists>r. close env (c, w) = Some (r, c\<lparr>sock := None\<rparr>, w @ closing_events c)"
proof (cases "sock c")
  case None
  then have "c\<lparr>sock := None\<rparr> = c" by simp
  with None show ?thesis by (simp add: close_not_open closing_events_def)
next
  case (Some s)
  then show ?thesis
    by (simp add: close_open closing_events_def sock_close_def sock_sendall_def)
qed

lemma send_open:
  "sock c = Some s \<Longrightarrow>
   send env cmd (c, w) =
     Some (fst (sock_sendall env s (ami_line cmd) w), c, w @ [SendAll s (ami_line cmd)])"
  by (simp add: send_def on_world_def sock_sendall_def)

lemma connect_create_fails:
  "net env (length w) = Raise e \<Longrightarrow>
   connect env (c, w) = Some (Raise e, c, w @ [Connect (host c) (port c)])"
  by (simp add: connect_def create_connection_def)

lemma connect_banner_fails:
  "net env (length w) = Return b0 \<Longrightarrow> net env (Suc (length w)) = Raise e \<Longrightarrow>
   connect env (c, w) =
     Some (Raise e, c\<lparr>sock := Some (length w)\<rparr>,
           w @ [Connect (host c) (port c), Recv (length w) 4096])"
  by (simp add: connect_def create_connection_def bind_def on_world_def sock_recv_def)

lemma connect_login_send_fails:
  "net env (length w) = Return b0 \<Longrightarrow> net env (Suc (length w)) = Return b1 \<Longrightarrow>
   net env (Suc (Suc (length w))) = Raise e \<Longrightarrow>
   connect env (c, w) =
     Some (Raise e, c\<lparr>sock := Some (length w)\<rparr>,
           w @ [Connect (host c) (port c), Recv (length w) 4096,
                SendAll (length w) (ami_line (login_action c))])"
  by (simp add: connect_def create_connection_def bind_def on_world_def sock_recv_def
      send_def sock_sendall_def)

lemma connect_reads:
  "net env (length w) = Return b0 \<Longrightarrow> net env (Suc (length w)) = Return b1 \<Longrightarrow>
   net env (Suc (Suc (length w))) = Return b2 \<Longrightarrow>
   connect env (c, w) =
     (case read_until_blank env
             (c\<lparr>sock := Some (length w)\<rparr>,
              w @ [Connect (host c) (port c), Recv (length w) 4096,
                   SendAll (length w) (ami_line (login_action c))]) of
        None \<Rightarrow> None
      | Some (Raise e, st) \<Rightarrow> Some (Raise e, st)
      | Some (Return response, st) \<Rightarrow>
          if \<not> bytes_in ''Success'' response
          then Some (Raise (RuntimeError (AMI_login_failed response)), st)
          else Some (Return (), st))"
  by (simp add: connect_def create_connection_def bind_def on_world_def sock_recv_def
      send_def sock_sendall_def raise_def ret_def
      split: option.splits result.splits prod.splits)


lemma connect_frame:
  assumes "connect env (c, w) = Some (r, c', w')"
  shows "\<exists>new. w' = w @ Connect (host c) (port c) # new \<and>
           set (sends new) \<subseteq> {ami_line (login_action c)} \<and>
           ((\<exists>e. net env (length w) = Raise e \<and> r = Raise e \<and> c' = c \<and> new = [])
            \<or> c' = c\<lparr>sock := Some (length w)\<rparr> \<and> (\<exists>b. net env (length w) = Return b))"
proof (cases "net env (length w)")
  case (Raise e)
  from assms have "r = Raise e" "c' = c" "w' = w @ Connect (host c) (port c) # []"
    by (auto simp: connect_create_fails [OF Raise])
  with Raise show ?thesis by simp
next
  case b0: (Return b0)
  show ?thesis
  proof (cases "net env (Suc (length w))")
    case (Raise e)
    from assms have "c' = c\<lparr>sock := Some (length w)\<rparr>"
      "w' = w @ Connect (host c) (port c) # [Recv (length w) 4096]"
      by (auto simp: connect_banner_fails [OF b0 Raise])
    with b0 show ?thesis by simp
  next
    case b1: (Return b1)
    show ?thesis
    proof (cases "net env (Suc (Suc (length w)))")
      case (Raise e)
      from assms have "c' = c\<lparr>sock := Some (length w)\<rparr>"
        "w' = w @ Connect (host c) (port c) #
           [Recv (length w) 4096, SendAll (length w) (ami_line (login_action c))]"
        by (auto simp: connect_login_send_fails [OF b0 b1 Raise])
      with b0 show ?thesis by simp
    next
      case b2: (Return b2)
      let ?c1 = "c\<lparr>sock := Some (length w)\<rparr>"
      let ?w3 = "w @ [Connect (host c) (port c), Recv (length w) 4096,
                   SendAll (length w) (ami_line (login_action c))]"
      from assms obtain rr where rd: "read_until_blank env (?c1, ?w3) = Some (rr, c', w')"
        by (auto simp: connect_reads [OF b0 b1 b2] split: option.splits result.splits if_splits)
      from read_until_blank_frame [OF rd] obtain new where
        new: "c' = ?c1" "w' = ?w3 @ new" "sends new = []" by blast
      have "w' = w @ Connect (host c) (port c) #
          ([Recv (length w) 4096, SendAll (length w) (ami_line (login_action c))] @ new) \<and>
        set (sends ([Recv (length w) 4096, SendAll (length w) (ami_line (login_action c))] @ new))
          \<subseteq> {ami_line (login_action c)}"
        using new by simp
      with new(1) b0 show ?thesis by blast
    qed
  qed
qed

lemma connect_terminates:
  assumes "peer_stops env"
  shows "\<exists>y. connect env (c, w) = Some y"
proof (cases "net env (length w)")
  case (Raise e)
  then show ?thesis by (simp add: connect_create_fails)
next
  case b0: (Return b0)
  show ?thesis
  proof (cases "net env (Suc (length w))")
    case (Raise e)
    with b0 show ?thesis by (simp add: connect_banner_fails)
  next
    case b1: (Return b1)
    show ?thesis
    proof (cases "net env (Suc (Suc (length w)))")
      case (Raise e)
      with b0 b1 show ?thesis by (simp add: connect_login_send_fails)
    next
      case b2: (Return b2)
      let ?c1 = "c\<lparr>sock := Some (length w)\<rparr>"
      let ?w3 = "w @ [Connect (host c) (port c), Recv (length w) 4096,
                   SendAll (length w) (ami_line (login_action c))]"
      from read_until_blank_terminates [OF assms] obtain rr w4 where
        "read_until_blank env (?c1, ?w3) = Some (rr, ?c1, w4)" by blast
      then show ?thesis
        by (cases rr) (simp_all add: connect_reads [OF b0 b1 b2])
    qed
  qed
qed

lemma originate_open:
  "sock c = Some s \<Longrightarrow>
   originate_simple env ch ex cx pr cid t (c, w) =
     (case net env (length w) of
        Raise e \<Rightarrow>
          Some (Raise e, c, w @ [SendAll s (ami_line (originate_action ch ex cx pr cid t))])
      | Return b \<Rightarrow>
          (case read_until_blank env
                  (c, w @ [SendAll s (ami_line (originate_action ch ex cx pr cid t))]) of
             None \<Rightarrow> None
           | Some (Raise e, st) \<Rightarrow> Some (Raise e, st)
           | Some (Return response, st) \<Rightarrow> Some (Return (), st)))"
  by (simp add: originate_simple_def bind_def send_open sock_sendall_def ret_def
      split: option.splits result.splits prod.splits)

lemma originate_frame:
  assumes "sock c = Some s"
    and "originate_simple env ch ex cx pr cid t (c, w) = Some (r, c', w')"
  shows "c' = c \<and>
    (\<exists>new. w' = w @ SendAll s (ami_line (originate_action ch ex cx pr cid t)) # new \<and>
       sends new = [])"
proof (cases "net env (length w)")
  case (Raise e)
  with assms have "c' = c"
    "w' = w @ SendAll s (ami_line (originate_action ch ex cx pr cid t)) # []"
    by (auto simp: originate_open)
  then have "c' = c \<and> w' = w @ SendAll s (ami_line (originate_action ch ex cx pr cid t)) # [] \<and>
      sends [] = []" by simp
  then show ?thesis by blast
next
  case (Return b)
  let ?w1 = "w @ [SendAll s (ami_line (originate_action ch ex cx pr cid t))]"
  from assms Return obtain rr where rd: "read_until_blank env (c, ?w1) = Some (rr, c', w')"
    by (auto simp: originate_open split: option.splits result.splits)
  from read_until_blank_frame [OF rd] obtain new where
    "c' = c" "w' = ?w1 @ new" "sends new = []" by blast
  then show ?thesis by simp
qed

lemma originate_terminates:
  assumes "peer_stops env" and "sock c = Some s"
  shows "\<exists>y. originate_simple env ch ex cx pr cid t (c, w) = Some y"
proof (cases "net env (length w)")
  case (Raise e)
  with assms(2) show ?thesis by (simp add: originate_open)
next
  case (Return b)
  let ?w1 = "w @ [SendAll s (ami_line (originate_action ch ex cx pr cid t))]"
  from read_until_blank_terminates [OF assms(1)] obtain rr w2 where
    "read_until_blank env (c, ?w1) = Some (rr, c, w2)" by blast
  with assms(2) Return show ?thesis
    by (cases rr) (simp_all add: originate_open)
qed


lemma attempt_connect_raises:
  "connect env st = Some (Raise e, c1, w1) \<Longrightarrow>
   call_attempt env st = Some (Return (), c1, w1 @ [Log ERROR (AMI_originate_failed e)])"
  by (simp add: call_attempt_def try_except_def bind_def on_world_def logging_def)

lemma attempt_originate_raises:
  "connect env st = Some (Return (), c1, w1) \<Longrightarrow>
   originate_configured env (c1, w1) = Some (Raise e, c2, w2) \<Longrightarrow>
   call_attempt env st = Some (Return (), c2, w2 @ [Log ERROR (AMI_originate_failed e)])"
  by (simp add: call_attempt_def try_except_def bind_def on_world_def logging_def)

lemma attempt_succeeds:
  "connect env st = Some (Return (), c1, w1) \<Longrightarrow>
   originate_configured env (c1, w1) = Some (Return (), c2, w2) \<Longrightarrow>
   call_attempt env st = Some (Return (), c2, w2 @ [Log INFO Originate_sent])"
  by (simp add: call_attempt_def try_except_def bind_def on_world_def logging_def)

lemma attempt_never_raises:
  "call_attempt env st = Some (r, st') \<Longrightarrow> r = Return ()"
  by (auto simp: call_attempt_def try_except_def bind_def on_world_def logging_def
      split: option.splits result.splits prod.splits)

lemma attempt_terminates:
  assumes "peer_stops env"
  shows "\<exists>y. call_attempt env (c, w) = Some y"
proof -
  from connect_terminates [OF assms] obtain r c1 w1 where
    cn: "connect env (c, w) = Some (r, c1, w1)" by (metis prod_cases3)
  show ?thesis
  proof (cases r)
    case (Raise e)
    with cn show ?thesis by (simp add: attempt_connect_raises)
  next
    case (Return u)
    with cn have cn': "connect env (c, w) = Some (Return (), c1, w1)" by simp
    from connect_frame [OF cn'] have "sock c1 = Some (length w)" by auto
    from originate_terminates [OF assms this] obtain r2 c2 w2 where
      og: "originate_configured env (c1, w1) = Some (r2, c2, w2)"
      unfolding originate_configured_def by (metis prod_cases3)
    show ?thesis
    proof (cases r2)
      case (Raise e)
      with cn' og show ?thesis by (simp add: attempt_originate_raises)
    next
      case (Return u)
      with cn' og show ?thesis by (simp add: attempt_succeeds)
    qed
  qed
qed

lemma dispatch_of_attempt:
  assumes "call_attempt env (configured_client env, w) = Some (r, c1, w1)"
  shows "dispatch env w = Some (r, w1 @ closing_events c1)"
proof -
  from close_world [of env c1 w1] obtain rc where
    "close env (c1, w1) = Some (rc, c1\<lparr>sock := None\<rparr>, w1 @ closing_events c1)" by blast
  with assms show ?thesis
    by (cases rc)
       (simp_all add: dispatch_def with_object_def try_finally_def try_except_def ret_def)
qed

lemma dispatch_diverges:
  "call_attempt env (configured_client env, w) = None \<Longrightarrow> dispatch env w = None"
  by (simp add: dispatch_def with_object_def try_finally_def)

lemma dispatch_never_raises:
  assumes "dispatch env w = Some (r, w')"
  shows "r = Return ()"
proof (cases "call_attempt env (configured_client env, w)")
  case None
  with assms show ?thesis by (simp add: dispatch_diverges)
next
  case (Some y)
  then obtain r1 c1 w1 where
    y: "call_attempt env (configured_client env, w) = Some (r1, c1, w1)"
    by (cases y) auto
  from attempt_never_raises [OF y] dispatch_of_attempt [OF y] assms
  show ?thesis by simp
qed

lemma dispatch_terminates:
  assumes "peer_stops env"
  shows "\<exists>w'. dispatch env w = Some (Return (), w')"
proof -
  from attempt_terminates [OF assms] obtain r c1 w1 where
    y: "call_attempt env (configured_client env, w) = Some (r, c1, w1)"
    by (metis prod_cases3)
  from attempt_never_raises [OF y] dispatch_of_attempt [OF y]
  show ?thesis by simp
qed

lemma handle_raises_on_conversion:
  "map_of items ''priority'' = Some v \<Longrightarrow> py_int (int_str env) v = Raise e \<Longrightarrow>
   handle_ntfy_msg env (JDict items) w = Some (Raise e, w)"
  by (simp add: handle_ntfy_msg_def bind_def lift_def)

lemma handle_not_dict:
  "dict_get msg ''priority'' (JInt 3) = Raise e \<Longrightarrow>
   handle_ntfy_msg env msg w = Some (Raise e, w)"
  by (simp add: handle_ntfy_msg_def bind_def lift_def)

lemma handle_low:
  assumes "dict_get msg ''priority'' (JInt 3) = Return pv" "py_int (int_str env) pv = Return p" "p < 4"
    and "dict_get msg ''title'' (JStr []) = Return title"
    and "dict_get msg ''message'' (JStr []) = Return body"
  shows "handle_ntfy_msg env msg w =
    Some (Return (), w @ [Log INFO (Ntfy_message p title body)])"
  using assms
  by (simp add: handle_ntfy_msg_def bind_def lift_def io_def logging_def ret_def)

lemma handle_high:
  assumes "dict_get msg ''priority'' (JInt 3) = Return pv" "py_int (int_str env) pv = Return p" "4 \<le> p"
    and "dict_get msg ''title'' (JStr []) = Return title"
    and "dict_get msg ''message'' (JStr []) = Return body"
  shows "handle_ntfy_msg env msg w =
    dispatch env (w @ [Log INFO (Ntfy_message p title body), Log INFO High_priority_detected])"
  using assms
  by (simp add: handle_ntfy_msg_def bind_def lift_def io_def logging_def ret_def)

lemma login_not_originate:
  "ami_line (login_action c) \<noteq> ami_line (originate_action ch ex cx pr cid t)"
  by (simp add: ami_line_def login_action_def originate_action_def field_line_def)

lemma logoff_not_originate:
  "ami_line logoff_action \<noteq> ami_line (originate_action ch ex cx pr cid t)"
  by (simp add: ami_line_def logoff_action_def originate_action_def field_line_def)

lemma attempt_connect_diverges:
  "connect env st = None \<Longrightarrow> call_attempt env st = None"
  by (simp add: call_attempt_def try_except_def bind_def)

lemma attempt_originate_diverges:
  "connect env st = Some (Return (), c1, w1) \<Longrightarrow>
   originate_configured env (c1, w1) = None \<Longrightarrow> call_attempt env st = None"
  by (simp add: call_attempt_def try_except_def bind_def)

lemma originate_configured_frame:
  assumes "sock c = Some s"
    and "originate_configured env (c, w) = Some (r, c', w')"
  shows "c' = c \<and> (\<exists>new. w' = w @ SendAll s (originate_block env) # new \<and> sends new = [])"
  using originate_frame [OF assms(1) assms(2) [unfolded originate_configured_def]]
  by (simp add: originate_block_def)

lemma attempt_sends:
  assumes "call_attempt env (c, w) = Some (r, c1, w1)"
  shows "\<exists>rest. w1 = w @ Connect (host c) (port c) # rest \<and>
           set (sends rest) \<subseteq> {ami_line (login_action c), originate_block env} \<and>
           (originate_block env \<in> set (sends rest) \<longleftrightarrow>
              (\<exists>c' w'. connect env (c, w) = Some (Return (), c', w'))) \<and>
           ((\<exists>e. net env (length w) = Raise e \<and> c1 = c)
            \<or> (\<exists>b. net env (length w) = Return b \<and> c1 = c\<lparr>sock := Some (length w)\<rparr>))"
proof (cases "connect env (c, w)")
  case None
  with assms show ?thesis by (simp add: attempt_connect_diverges)
next
  case (Some y)
  then obtain rc cc wc where cn: "connect env (c, w) = Some (rc, cc, wc)"
    by (cases y) auto
  from connect_frame [OF cn] obtain new where
    new: "wc = w @ Connect (host c) (port c) # new"
      "set (sends new) \<subseteq> {ami_line (login_action c)}"
      "(\<exists>e. net env (length w) = Raise e \<and> rc = Raise e \<and> cc = c \<and> new = [])
        \<or> cc = c\<lparr>sock := Some (length w)\<rparr> \<and> (\<exists>b. net env (length w) = Return b)"
    by blast
  have neq: "originate_block env \<noteq> ami_line (login_action c)"
    unfolding originate_block_def by (rule login_not_originate [symmetric])
  show ?thesis
  proof (cases rc)
    case (Raise e)
    with cn assms have r: "c1 = cc" "w1 = wc @ [Log ERROR (AMI_originate_failed e)]"
      by (simp_all add: attempt_connect_raises)
    let ?rest = "new @ [Log ERROR (AMI_originate_failed e)]"
    have "w1 = w @ Connect (host c) (port c) # ?rest" using r new by simp
    moreover have "set (sends ?rest) \<subseteq> {ami_line (login_action c), originate_block env}"
      using new(2) by auto
    moreover have "originate_block env \<notin> set (sends ?rest)"
      using new(2) neq by auto
    moreover have "\<not> (\<exists>c' w'. connect env (c, w) = Some (Return (), c', w'))"
      using cn Raise by simp
    moreover have "(\<exists>e. net env (length w) = Raise e \<and> c1 = c)
            \<or> (\<exists>b. net env (length w) = Return b \<and> c1 = c\<lparr>sock := Some (length w)\<rparr>)"
      using new(3) r(1) by auto
    ultimately show ?thesis by blast
  next
    case (Return u)
    with cn have cn': "connect env (c, w) = Some (Return (), cc, wc)" by simp
    from new(3) Return have cc: "cc = c\<lparr>sock := Some (length w)\<rparr>"
      and b: "\<exists>b. net env (length w) = Return b" by auto
    then have sk: "sock cc = Some (length w)" by simp
    show ?thesis
    proof (cases "originate_configured env (cc, wc)")
      case None
      with cn' assms show ?thesis by (simp add: attempt_originate_diverges)
    next
      case (Some z)
      then obtain r2 c2 w2 where og: "originate_configured env (cc, wc) = Some (r2, c2, w2)"
        by (cases z) auto
      from originate_configured_frame [OF sk og] obtain new2 where
        new2: "c2 = cc" "w2 = wc @ SendAll (length w) (originate_block env) # new2"
          "sends new2 = []" by blast
      obtain l where l: "call_attempt env (c, w) = Some (Return (), c2, w2 @ [l])"
        using cn' og by (cases r2) (auto simp: attempt_originate_raises attempt_succeeds)
      with assms have r: "c1 = c2" "w1 = w2 @ [l]" by simp_all
      from l assms have "\<exists>lv m. l = Log lv m"
        using cn' og by (cases r2) (auto simp: attempt_originate_raises attempt_succeeds)
      then have sl: "sends [l] = []" by auto
      let ?rest = "new @ SendAll (length w) (originate_block env) # new2 @ [l]"
      have "w1 = w @ Connect (host c) (port c) # ?rest" using r new new2 by simp
      moreover have "set (sends ?rest) \<subseteq> {ami_line (login_action c), originate_block env}"
        using new(2) new2(3) sl by auto
      moreover have "originate_block env \<in> set (sends ?rest)" by simp
      moreover have "\<exists>c' w'. connect env (c, w) = Some (Return (), c', w')"
        using cn' by blast
      moreover have "(\<exists>e. net env (length w) = Raise e \<and> c1 = c)
            \<or> (\<exists>b. net env (length w) = Return b \<and> c1 = c\<lparr>sock := Some (length w)\<rparr>)"
        using b cc r(1) new2(1) by auto
      ultimately show ?thesis by blast
    qed
  qed
qed

lemma sends_closing_events:
  "set (sends (closing_events c)) \<subseteq> {ami_line logoff_action}"
  by (simp add: closing_events_def split: option.splits)

lemma dispatch_sends:
  assumes "dispatch env w = Some (r, w')"
  shows "r = Return () \<and>
    (\<exists>rest. w' = w @ Connect (AMI_HOST (cfg env)) (AMI_PORT (cfg env)) # rest \<and>
       (originate_block env \<in> set (sends rest) \<longleftrightarrow>
          (\<exists>c' w1. connect env (configured_client env, w) = Some (Return (), c', w1))) \<and>
       (\<forall>b. net env (length w) = Return b \<longrightarrow>
          suffix [SendAll (length w) (ami_line logoff_action), SockClose (length w)] rest))"
proof (cases "call_attempt env (configured_client env, w)")
  case None
  with assms show ?thesis by (simp add: dispatch_diverges)
next
  case (Some y)
  let ?c = "configured_client env"
  from Some obtain r1 c1 w1 where at: "call_attempt env (?c, w) = Some (r1, c1, w1)"
    by (cases y) auto
  from dispatch_of_attempt [OF at] assms attempt_never_raises [OF at]
  have r: "r = Return ()" and w': "w' = w1 @ closing_events c1" by simp_all
  from attempt_sends [OF at] obtain rest where
    rest: "w1 = w @ Connect (host ?c) (port ?c) # rest"
      "originate_block env \<in> set (sends rest) \<longleftrightarrow>
         (\<exists>c' w'. connect env (?c, w) = Some (Return (), c', w'))"
      "(\<exists>e. net env (length w) = Raise e \<and> c1 = ?c)
        \<or> (\<exists>b. net env (length w) = Return b \<and> c1 = ?c\<lparr>sock := Some (length w)\<rparr>)"
    by blast
  have hp: "host ?c = AMI_HOST (cfg env)" "port ?c = AMI_PORT (cfg env)"
    by (simp_all add: configured_client_def new_AMIClient_def)
  have "originate_block env \<noteq> ami_line logoff_action"
    unfolding originate_block_def by (rule logoff_not_originate [symmetric])
  then have nq: "originate_block env \<notin> set (sends (closing_events c1))"
    using sends_closing_events [of c1] by blast
  let ?rest = "rest @ closing_events c1"
  have "w' = w @ Connect (AMI_HOST (cfg env)) (AMI_PORT (cfg env)) # ?rest"
    using w' rest(1) hp by simp
  moreover have "originate_block env \<in> set (sends ?rest) \<longleftrightarrow>
      (\<exists>c' w1. connect env (?c, w) = Some (Return (), c', w1))"
    using rest(2) nq by simp
  moreover have "suffix [SendAll (length w) (ami_line logoff_action), SockClose (length w)] ?rest"
    if "net env (length w) = Return b" for b
  proof -
    from that rest(3) have "c1 = ?c\<lparr>sock := Some (length w)\<rparr>" by auto
    then have "closing_events c1 =
        [SendAll (length w) (ami_line logoff_action), SockClose (length w)]"
      by (simp add: closing_events_def)
    then show ?thesis by (simp add: suffix_def)
  qed
  ultimately show ?thesis using r by blast
qed

lemma summary_fields:
  "dict_get (JDict items) ''title'' (JStr []) =
     Return (case map_of items ''title'' of None \<Rightarrow> JStr [] | Some t \<Rightarrow> t)"
  "dict_get (JDict items) ''message'' (JStr []) =
     Return (case map_of items ''message'' of None \<Rightarrow> JStr [] | Some b \<Rightarrow> b)"
  by simp_all

section \<open>The priority of an event\<close>

text \<open>
  C1, as the code has it. An event without a priority is handled as priority 3: its
  summary is logged and nothing else happens. An event whose priority \<^verbatim>\<open>int()\<close> refuses
  (\<^verbatim>\<open>null\<close>, a list, an object, NaN, an infinity, a text that \<^verbatim>\<open>int\<close> does not read as
  an integer) causes no dispatch either, and nothing is logged: the conversion error
  leaves the handler.
\<close>

theorem priority_missing_or_unconvertible:
  "(map_of items ''priority'' = None \<longrightarrow>
      handle_ntfy_msg env (JDict items) w =
        Some (Return (),
              w @ [Log INFO (Ntfy_message 3
                     (case map_of items ''title'' of None \<Rightarrow> JStr [] | Some t \<Rightarrow> t)
                     (case map_of items ''message'' of None \<Rightarrow> JStr [] | Some b \<Rightarrow> b))])) \<and>
   (\<forall>v e. map_of items ''priority'' = Some v \<longrightarrow> py_int (int_str env) v = Raise e \<longrightarrow>
      handle_ntfy_msg env (JDict items) w = Some (Raise e, w))"
proof (intro conjI impI allI)
  assume "map_of items ''priority'' = None"
  then show "handle_ntfy_msg env (JDict items) w =
        Some (Return (),
              w @ [Log INFO (Ntfy_message 3
                     (case map_of items ''title'' of None \<Rightarrow> JStr [] | Some t \<Rightarrow> t)
                     (case map_of items ''message'' of None \<Rightarrow> JStr [] | Some b \<Rightarrow> b))])"
    by (simp add: handle_low [where pv = "JInt 3" and p = 3])
next
  fix v e
  assume "map_of items ''priority'' = Some v" "py_int (int_str env) v = Raise e"
  then show "handle_ntfy_msg env (JDict items) w = Some (Raise e, w)"
    by (rule handle_raises_on_conversion)
qed

text \<open>An event without fields, and an event whose priority is \<^verbatim>\<open>null\<close>.\<close>

theorem priority_missing_or_unconvertible_witness:
  "map_of [] ''priority'' = (None :: json option) \<and>
   handle_ntfy_msg down_env (JDict []) [] =
     Some (Return (), [Log INFO (Ntfy_message 3 (JStr []) (JStr []))]) \<and>
   map_of [(''priority'', JNull)] ''priority'' = Some JNull \<and>
   py_int (int_str down_env) JNull = Raise TypeError \<and>
   handle_ntfy_msg down_env (JDict [(''priority'', JNull)]) [] = Some (Raise TypeError, [])"
  using priority_missing_or_unconvertible [of "[]" down_env "[]"]
    priority_missing_or_unconvertible [of "[(''priority'', JNull)]" down_env "[]"]
  by simp

text \<open>
  The claim as stated fails: \<^verbatim>\<open>int\<close> refuses the text \<^verbatim>\<open>high\<close>, and the priority
  \<^verbatim>\<open>"high"\<close> is not handled as 3: the handler raises \<^verbatim>\<open>ValueError\<close>.
\<close>

theorem non_numeric_priority_counterexample:
  "int_str down_env ''high'' = None \<and>
   handle_ntfy_msg down_env (JDict [(''priority'', JStr ''high'')]) [] =
     Some (Raise ValueError, [])"
proof -
  have refused: "int_str down_env ''high'' = None"
    by (simp add: down_env_def env_of_net_def int_known_def)
  have "handle_ntfy_msg down_env (JDict [(''priority'', JStr ''high'')]) [] =
     Some (Raise ValueError, [])"
    by (rule handle_raises_on_conversion [where v = "JStr ''high''"])
       (simp_all add: refused)
  with refused show ?thesis by simp
qed

section \<open>The threshold\<close>

lemmas run_defs =
  handle_ntfy_msg_def dispatch_def call_attempt_def configured_client_def new_AMIClient_def
  connect_def originate_configured_def originate_simple_def close_def read_until_blank_def
  read_loop.simps send_def on_world_def with_object_def bind_def try_except_def
  try_finally_def ret_def raise_def lift_def io_def logging_def create_connection_def
  sock_recv_def sock_sendall_def sock_close_def sock_settimeout_def
  scripted_def env_of_net_def default_config_def
  bytes_in_def blank_line_def crlf_def CR_def LF_def sublist_Cons_right






section \<open>A rejected login\<close>

lemma connect_login_rejected:
  assumes "net env (length w) = Return b0"
    and "net env (Suc (length w)) = Return b1"
    and "net env (Suc (Suc (length w))) = Return b2"
    and "read_until_blank env (login_sent env w) = Some (Return response, st)"
    and "\<not> bytes_in ''Success'' response"
  shows "connect env (configured_client env, w) =
    Some (Raise (RuntimeError (AMI_login_failed response)), st)"
proof -
  have "login_sent env w =
      ((configured_client env)\<lparr>sock := Some (length w)\<rparr>,
       w @ [Connect (host (configured_client env)) (port (configured_client env)),
            Recv (length w) 4096,
            SendAll (length w) (ami_line (login_action (configured_client env)))])"
    by (simp add: login_sent_def configured_client_def new_AMIClient_def)
  with assms(4,5) show ?thesis
    by (simp add: connect_reads [OF assms(1-3)])
qed

text \<open>
  C5. When the accumulated login reply does not contain \<open>Success\<close>, \<open>connect\<close> raises
  \<^verbatim>\<open>RuntimeError("AMI login failed: ...")\<close>, which is the program's authentication
  failure. The dispatch then logs it and closes the client: after the reply nothing
  but the log line, the logoff send and the closing of the socket happens, and the
  Originate command is not among the bytes sent. Whatever way a dispatch that has
  opened its socket ends, the logoff send and the closing of the socket are its
  last events.
\<close>

theorem login_failure_raises_then_closes:
  "(\<forall>b0 b1 b2 response c' w4.
      net env (length w) = Return b0 \<longrightarrow>
      net env (Suc (length w)) = Return b1 \<longrightarrow>
      net env (Suc (Suc (length w))) = Return b2 \<longrightarrow>
      read_until_blank env (login_sent env w) = Some (Return response, c', w4) \<longrightarrow>
      \<not> bytes_in ''Success'' response \<longrightarrow>
        connect env (configured_client env, w) =
          Some (Raise (RuntimeError (AMI_login_failed response)), c', w4) \<and>
        dispatch env w =
          Some (Return (),
                w4 @ [Log ERROR (AMI_originate_failed (RuntimeError (AMI_login_failed response))),
                      SendAll (length w) (ami_line logoff_action), SockClose (length w)]) \<and>
        originate_block env \<notin> set (sends (drop (length w) w4))) \<and>
   (\<forall>b r w'.
      net env (length w) = Return b \<longrightarrow> dispatch env w = Some (r, w') \<longrightarrow>
        suffix [SendAll (length w) (ami_line logoff_action), SockClose (length w)] w')"
proof -
  have rejected:
    "connect env (configured_client env, w) =
          Some (Raise (RuntimeError (AMI_login_failed response)), c', w4) \<and>
        dispatch env w =
          Some (Return (),
                w4 @ [Log ERROR (AMI_originate_failed (RuntimeError (AMI_login_failed response))),
                      SendAll (length w) (ami_line logoff_action), SockClose (length w)]) \<and>
        originate_block env \<notin> set (sends (drop (length w) w4))"
    if n: "net env (length w) = Return b0" "net env (Suc (length w)) = Return b1"
      "net env (Suc (Suc (length w))) = Return b2"
      and rd: "read_until_blank env (login_sent env w) = Some (Return response, c', w4)"
      and ns: "\<not> bytes_in ''Success'' response"
    for b0 b1 b2 response c' w4
  proof -
    let ?c = "configured_client env"
    let ?e = "RuntimeError (AMI_login_failed response)"
    from connect_login_rejected [OF n rd ns]
    have cn: "connect env (?c, w) = Some (Raise ?e, c', w4)" .
    from rd have rd': "read_until_blank env (fst (login_sent env w), snd (login_sent env w)) =
        Some (Return response, c', w4)" by simp
    from read_until_blank_frame [OF rd'] obtain new where
      new: "c' = fst (login_sent env w)" "w4 = snd (login_sent env w) @ new" "sends new = []"
      by blast
    from new(1) have sk: "sock c' = Some (length w)" by (simp add: login_sent_def)
    from attempt_connect_raises [OF cn]
    have "call_attempt env (?c, w) = Some (Return (), c', w4 @ [Log ERROR (AMI_originate_failed ?e)])" .
    from dispatch_of_attempt [OF this] sk
    have d: "dispatch env w =
        Some (Return (), w4 @ [Log ERROR (AMI_originate_failed ?e),
                SendAll (length w) (ami_line logoff_action), SockClose (length w)])"
      by (simp add: closing_events_def)
    have "originate_block env \<noteq> ami_line (login_action ?c)"
      unfolding originate_block_def by (rule login_not_originate [symmetric])
    with new(2,3) have "originate_block env \<notin> set (sends (drop (length w) w4))"
      by (simp add: login_sent_def)
    with cn d show ?thesis by simp
  qed
  have closes: "suffix [SendAll (length w) (ami_line logoff_action), SockClose (length w)] w'"
    if "net env (length w) = Return b" "dispatch env w = Some (r, w')" for b r w'
  proof -
    from dispatch_sends [OF that(2)] that(1) obtain rest where
      "w' = w @ Connect (AMI_HOST (cfg env)) (AMI_PORT (cfg env)) # rest"
      "suffix [SendAll (length w) (ami_line logoff_action), SockClose (length w)] rest"
      by blast
    then show ?thesis by (auto simp: suffix_def)
  qed
  from rejected closes show ?thesis by blast
qed

lemma rejecting_read:
  "read_until_blank rejecting_env
     (login_sent rejecting_env
        [summary 5 [(''priority'', JInt 5)], Log INFO High_priority_detected]) =
   Some (Return error_reply,
     (configured_client rejecting_env)\<lparr>sock := Some 2\<rparr>,
     [summary 5 [(''priority'', JInt 5)], Log INFO High_priority_detected,
      Connect ''pbx'' 5038, Recv 2 4096,
      SendAll 2 (ami_line (login_action (configured_client rejecting_env))),
      SetTimeout 2 10, Recv 2 4096])"
  by (simp add: run_defs rejecting_env_def error_reply_def login_sent_def)

text \<open>A server that answers the login with \<^verbatim>\<open>Response: Error\<close>.\<close>

theorem login_failure_raises_then_closes_witness:
  "net rejecting_env 2 = Return [] \<and> net rejecting_env 3 = Return [] \<and>
   net rejecting_env 4 = Return [] \<and>
   \<not> bytes_in ''Success'' error_reply \<and>
   connect rejecting_env
     (configured_client rejecting_env,
      [summary 5 [(''priority'', JInt 5)], Log INFO High_priority_detected]) =
     Some (Raise (RuntimeError (AMI_login_failed error_reply)),
       (configured_client rejecting_env)\<lparr>sock := Some 2\<rparr>,
       [summary 5 [(''priority'', JInt 5)], Log INFO High_priority_detected,
        Connect ''pbx'' 5038, Recv 2 4096,
        SendAll 2 (ami_line (login_action (configured_client rejecting_env))),
        SetTimeout 2 10, Recv 2 4096]) \<and>
   dispatch rejecting_env
       [summary 5 [(''priority'', JInt 5)], Log INFO High_priority_detected] =
     Some (Return (),
       [summary 5 [(''priority'', JInt 5)], Log INFO High_priority_detected,
        Connect ''pbx'' 5038, Recv 2 4096,
        SendAll 2 (ami_line (login_action (configured_client rejecting_env))),
        SetTimeout 2 10, Recv 2 4096,
        Log ERROR (AMI_originate_failed (RuntimeError (AMI_login_failed error_reply))),
        SendAll 2 (ami_line logoff_action), SockClose 2])"
proof -
  let ?w = "[summary 5 [(''priority'', JInt 5)], Log INFO High_priority_detected]"
  have n: "net rejecting_env 2 = Return []" "net rejecting_env 3 = Return []"
    "net rejecting_env 4 = Return []"
    by (simp_all add: rejecting_env_def scripted_def env_of_net_def)
  then have n': "net rejecting_env (length ?w) = Return []"
    "net rejecting_env (Suc (length ?w)) = Return []"
    "net rejecting_env (Suc (Suc (length ?w))) = Return []"
    by (simp_all add: numeral_2_eq_2 numeral_3_eq_3 eval_nat_numeral)
  have ns: "\<not> bytes_in ''Success'' error_reply"
    by (simp add: error_reply_def bytes_in_def crlf_def CR_def LF_def sublist_Cons_right)
  note login_failure_raises_then_closes
    [of rejecting_env ?w, THEN conjunct1, rule_format, OF n' rejecting_read ns]
  with n ns show ?thesis by simp
qed

section \<open>The frames of the stream\<close>

lemma stream_ignored:
  "\<not> prefix data_prefix (strip (decode_utf8_ignore env line)) \<Longrightarrow>
   stream_loop env (line # rest) w = stream_loop env rest w"
  by simp

lemma stream_malformed:
  "prefix data_prefix (strip (decode_utf8_ignore env line)) \<Longrightarrow>
   json_loads env (drop 6 (strip (decode_utf8_ignore env line))) = Raise JSONDecodeError \<Longrightarrow>
   stream_loop env (line # rest) w =
     stream_loop env rest
       (w @ [Log DEBUG (Ignoring_non_JSON
               (take 120 (drop 6 (strip (decode_utf8_ignore env line)))))])"
  by (simp add: Let_def bind_def io_def logging_def)

lemma stream_forwarded:
  "prefix data_prefix (strip (decode_utf8_ignore env line)) \<Longrightarrow>
   json_loads env (drop 6 (strip (decode_utf8_ignore env line))) = Return msg \<Longrightarrow>
   stream_loop env (line # rest) w =
     bind (handle_ntfy_msg env msg) (\<lambda>_. stream_loop env rest) w"
  by (simp add: Let_def)

lemma stream_raises:
  "prefix data_prefix (strip (decode_utf8_ignore env line)) \<Longrightarrow>
   json_loads env (drop 6 (strip (decode_utf8_ignore env line))) = Raise e \<Longrightarrow>
   e \<noteq> JSONDecodeError \<Longrightarrow>
   stream_loop env (line # rest) w = Some (Raise e, w)"
  by (simp add: Let_def raise_def)

lemma strip_clean:
  assumes "s \<noteq> []" "\<not> is_space (hd s)" "\<not> is_space (last s)"
  shows "strip s = s"
proof -
  from assms have "dropWhile is_space s = s"
    by (cases s) simp_all
  moreover from assms have "dropWhile is_space (rev s) = rev s"
    by (cases "rev s") (simp_all add: hd_rev [symmetric])
  ultimately show ?thesis
    by (simp add: strip_def)
qed

text \<open>White space of every kind goes, at both ends and nowhere else.\<close>

lemma strip_unicode_space:
  "strip ([0xA0, 0x1C] @ ascii ''data: {}'' @ [0x3000, 0x0A]) = ascii ''data: {}''"
  by (simp add: strip_def is_space_def ascii_def)

lemma long_number_line_decoded:
  "strip (ascii long_number_line) = data_prefix @ long_number"
proof -
  have split: "ascii long_number_line = data_prefix @ long_number"
    by (simp add: ascii_def long_number_line_def data_prefix_def long_number_def)
  have "strip (data_prefix @ long_number) = data_prefix @ long_number"
    by (rule strip_clean)
       (simp_all add: data_prefix_def ascii_def long_number_def is_space_def)
  with split show ?thesis by simp
qed

lemma long_number_refused: "loads_known long_number = Raise ValueError"
proof -
  have "length long_number = 4301"
    by (simp add: long_number_def)
  moreover have "length (ascii ''{}'') = 2" "length alert_payload = 15"
    by (simp_all add: ascii_def alert_payload_def alert_bytes_def)
  ultimately have "long_number \<noteq> ascii ''{}''" "long_number \<noteq> alert_payload"
    by auto
  then show ?thesis
    by (simp add: loads_known_def)
qed

lemma loads_known_short:
  assumes "length s < 4301"
  shows "loads_known s =
     (if s = ascii ''{}'' then Return (JDict [])
      else if s = alert_payload then Return alert
      else Raise JSONDecodeError)"
proof -
  from assms have "s \<noteq> long_number"
    by (auto simp: long_number_def)
  then show ?thesis
    by (simp add: loads_known_def)
qed

lemma long_number_frame:
  "prefix data_prefix (strip (decode_utf8_ignore down_env long_number_line))"
  "json_loads down_env (drop 6 (strip (decode_utf8_ignore down_env long_number_line))) =
     Raise ValueError"
proof -
  have lib: "decode_utf8_ignore down_env = ascii" "json_loads down_env = loads_known"
    by (simp_all add: down_env_def env_of_net_def)
  have six: "length data_prefix = 6"
    by (simp add: data_prefix_def ascii_def)
  show "prefix data_prefix (strip (decode_utf8_ignore down_env long_number_line))"
    by (simp add: lib long_number_line_decoded)
  show "json_loads down_env (drop 6 (strip (decode_utf8_ignore down_env long_number_line))) =
     Raise ValueError"
    by (simp add: lib long_number_line_decoded six long_number_refused)
qed

text \<open>
  C7, as the code has it. A line that, decoded and stripped, does not begin with
  \<open>data: \<close> is ignored. A line that does has the six characters of the prefix dropped
  and the remainder given to \<^verbatim>\<open>json.loads\<close>. When that raises \<^verbatim>\<open>JSONDecodeError\<close> the
  first 120 characters of the payload are logged at debug level and the line is
  skipped, so that a malformed frame followed by a valid one leaves the debug line, and
  the valid frame is dispatched. When it returns a message, the message goes to the
  dispatcher, and the lines after it are read once the dispatcher has returned. When it
  raises anything else, nothing is logged and the error leaves the subscriber: the
  lines that follow are not read.
\<close>

theorem stream_framing:
  "(\<not> prefix data_prefix (strip (decode_utf8_ignore env line)) \<longrightarrow>
      stream_loop env (line # rest) w = stream_loop env rest w) \<and>
   (prefix data_prefix (strip (decode_utf8_ignore env line)) \<longrightarrow>
      json_loads env (drop 6 (strip (decode_utf8_ignore env line))) = Raise JSONDecodeError \<longrightarrow>
        stream_loop env (line # rest) w =
          stream_loop env rest
            (w @ [Log DEBUG (Ignoring_non_JSON
                    (take 120 (drop 6 (strip (decode_utf8_ignore env line)))))]) \<and>
        (\<forall>next_line msg.
           prefix data_prefix (strip (decode_utf8_ignore env next_line)) \<longrightarrow>
           json_loads env (drop 6 (strip (decode_utf8_ignore env next_line))) = Return msg \<longrightarrow>
             stream_loop env (line # next_line # rest) w =
               bind (handle_ntfy_msg env msg) (\<lambda>_. stream_loop env rest)
                 (w @ [Log DEBUG (Ignoring_non_JSON
                         (take 120 (drop 6 (strip (decode_utf8_ignore env line)))))]))) \<and>
   (\<forall>msg.
      prefix data_prefix (strip (decode_utf8_ignore env line)) \<longrightarrow>
      json_loads env (drop 6 (strip (decode_utf8_ignore env line))) = Return msg \<longrightarrow>
        stream_loop env (line # rest) w =
          bind (handle_ntfy_msg env msg) (\<lambda>_. stream_loop env rest) w) \<and>
   (\<forall>e.
      prefix data_prefix (strip (decode_utf8_ignore env line)) \<longrightarrow>
      json_loads env (drop 6 (strip (decode_utf8_ignore env line))) = Raise e \<longrightarrow>
      e \<noteq> JSONDecodeError \<longrightarrow>
        stream_loop env (line # rest) w = Some (Raise e, w))"
proof (intro conjI impI allI)
  assume "\<not> prefix data_prefix (strip (decode_utf8_ignore env line))"
  then show "stream_loop env (line # rest) w = stream_loop env rest w"
    by (rule stream_ignored)
next
  assume "prefix data_prefix (strip (decode_utf8_ignore env line))"
    "json_loads env (drop 6 (strip (decode_utf8_ignore env line))) = Raise JSONDecodeError"
  then show "stream_loop env (line # rest) w =
          stream_loop env rest
            (w @ [Log DEBUG (Ignoring_non_JSON
                    (take 120 (drop 6 (strip (decode_utf8_ignore env line)))))])"
    by (rule stream_malformed)
next
  fix next_line msg
  assume bad: "prefix data_prefix (strip (decode_utf8_ignore env line))"
    "json_loads env (drop 6 (strip (decode_utf8_ignore env line))) = Raise JSONDecodeError"
    and good: "prefix data_prefix (strip (decode_utf8_ignore env next_line))"
    "json_loads env (drop 6 (strip (decode_utf8_ignore env next_line))) = Return msg"
  show "stream_loop env (line # next_line # rest) w =
               bind (handle_ntfy_msg env msg) (\<lambda>_. stream_loop env rest)
                 (w @ [Log DEBUG (Ignoring_non_JSON
                         (take 120 (drop 6 (strip (decode_utf8_ignore env line)))))])"
    by (simp only: stream_malformed [OF bad] stream_forwarded [OF good])
next
  fix msg
  assume "prefix data_prefix (strip (decode_utf8_ignore env line))"
    "json_loads env (drop 6 (strip (decode_utf8_ignore env line))) = Return msg"
  then show "stream_loop env (line # rest) w =
          bind (handle_ntfy_msg env msg) (\<lambda>_. stream_loop env rest) w"
    by (rule stream_forwarded)
next
  fix e
  assume "prefix data_prefix (strip (decode_utf8_ignore env line))"
    "json_loads env (drop 6 (strip (decode_utf8_ignore env line))) = Raise e"
    "e \<noteq> JSONDecodeError"
  then show "stream_loop env (line # rest) w = Some (Raise e, w)"
    by (rule stream_raises)
qed

lemmas str_defs =
  strip_def is_space_def data_prefix_def ascii_def loads_known_short alert_payload_def
  alert_bytes_def alert_def down_env_def env_of_net_def

text \<open>
  A keep-alive comment, a malformed frame and the frame \<^verbatim>\<open>data: {}\<close> with its line
  feed: the comment leaves nothing, the malformed frame its debug line, and the
  dispatcher logs the summary of the empty event. A frame whose payload is a number of
  4301 digits, which \<^verbatim>\<open>json.loads\<close> refuses with \<^verbatim>\<open>ValueError\<close>: the error leaves the
  loop.
\<close>

theorem stream_framing_witness:
  "\<not> prefix data_prefix (strip (decode_utf8_ignore down_env '': keepalive'')) \<and>
   prefix data_prefix (strip (decode_utf8_ignore down_env ''data: {not json'')) \<and>
   json_loads down_env (drop 6 (strip (decode_utf8_ignore down_env ''data: {not json''))) =
     Raise JSONDecodeError \<and>
   prefix data_prefix (strip (decode_utf8_ignore down_env (''data: {}'' @ [LF]))) \<and>
   json_loads down_env (drop 6 (strip (decode_utf8_ignore down_env (''data: {}'' @ [LF])))) =
     Return (JDict []) \<and>
   stream_loop down_env ['': keepalive'', ''data: {not json'', ''data: {}'' @ [LF]] [] =
     Some (Return (), [Log DEBUG (Ignoring_non_JSON (ascii ''{not json'')), summary 3 []]) \<and>
   stream_loop down_env [''data: {}''] [] = Some (Return (), [summary 3 []]) \<and>
   prefix data_prefix (strip (decode_utf8_ignore down_env long_number_line)) \<and>
   json_loads down_env (drop 6 (strip (decode_utf8_ignore down_env long_number_line))) =
     Raise ValueError \<and>
   ValueError \<noteq> JSONDecodeError \<and>
   stream_loop down_env [long_number_line] [] = Some (Raise ValueError, [])"
proof -
  have a: "\<not> prefix data_prefix (strip (decode_utf8_ignore down_env '': keepalive''))"
    by (simp add: str_defs)
  have b: "prefix data_prefix (strip (decode_utf8_ignore down_env ''data: {not json''))"
    "json_loads down_env (drop 6 (strip (decode_utf8_ignore down_env ''data: {not json''))) =
       Raise JSONDecodeError"
    by (simp_all add: str_defs)
  have c: "prefix data_prefix (strip (decode_utf8_ignore down_env (''data: {}'' @ [LF])))"
    "json_loads down_env (drop 6 (strip (decode_utf8_ignore down_env (''data: {}'' @ [LF])))) =
       Return (JDict [])"
    by (simp_all add: str_defs LF_def)
  have c': "prefix data_prefix (strip (decode_utf8_ignore down_env ''data: {}''))"
    "json_loads down_env (drop 6 (strip (decode_utf8_ignore down_env ''data: {}''))) =
       Return (JDict [])"
    by (simp_all add: str_defs)
  have d: "take 120 (drop 6 (strip (decode_utf8_ignore down_env ''data: {not json''))) =
      ascii ''{not json''"
    by (simp add: str_defs)
  have e: "handle_ntfy_msg down_env (JDict []) w = Some (Return (), w @ [summary 3 []])" for w
    by (simp add: handle_low [where pv = "JInt 3" and p = 3] summary_def)
  have f: "ValueError \<noteq> JSONDecodeError"
    by simp
  note first = stream_framing [of down_env "'': keepalive''", THEN conjunct1, rule_format, OF a]
  note second = stream_framing [of down_env "''data: {not json''", THEN conjunct2,
      THEN conjunct1, rule_format, OF b, THEN conjunct2, rule_format, OF c]
  note third = stream_framing [of down_env "''data: {}''", THEN conjunct2, THEN conjunct2,
      THEN conjunct1, rule_format, OF c']
  note fourth = stream_framing [of down_env long_number_line, THEN conjunct2, THEN conjunct2,
      THEN conjunct2, rule_format, OF long_number_frame f]
  have "stream_loop down_env ['': keepalive'', ''data: {not json'', ''data: {}'' @ [LF]] [] =
     Some (Return (), [Log DEBUG (Ignoring_non_JSON (ascii ''{not json'')), summary 3 []])"
    by (simp only: first second d) (simp add: bind_def e ret_def)
  moreover have "stream_loop down_env [''data: {}''] [] = Some (Return (), [summary 3 []])"
    by (simp only: third) (simp add: bind_def e ret_def)
  moreover have "stream_loop down_env [long_number_line] [] = Some (Raise ValueError, [])"
    by (rule fourth)
  ultimately show ?thesis
    using a b c long_number_frame by simp
qed

text \<open>
  The claim as stated fails: a payload that \<^verbatim>\<open>json.loads\<close> refuses with an exception
  other than \<^verbatim>\<open>JSONDecodeError\<close> is not skipped. The number of 4301 digits raises
  \<^verbatim>\<open>ValueError\<close>, which leaves the loop; the valid frame that follows is not read.
\<close>

theorem parse_error_ends_stream_counterexample:
  "json_loads down_env (drop 6 (strip (decode_utf8_ignore down_env long_number_line))) =
     Raise ValueError \<and>
   stream_loop down_env [long_number_line, ''data: {}''] [] = Some (Raise ValueError, [])"
proof -
  have "stream_loop down_env [long_number_line, ''data: {}''] [] = Some (Raise ValueError, [])"
    by (rule stream_raises [OF long_number_frame]) simp
  with long_number_frame(2) show ?thesis by simp
qed

section \<open>A failed dispatch stays inside the dispatcher\<close>

lemma peer_stops_down: "peer_stops down_env"
  by (auto simp: peer_stops_def recv_ends_def down_env_def env_of_net_def)

text \<open>
  C4. Once the priority of an event has been read, the handler never raises: every
  exception of \<open>connect\<close> or of the originate step is caught and logged, the client is
  closed, and the handler returns, so that the subscriber's loop goes on with the
  lines that follow. The handler does return whenever the peer stops.
\<close>

theorem dispatch_failure_does_not_propagate:
  assumes "py_int (int_str env) (case map_of items ''priority'' of None \<Rightarrow> JInt 3 | Some v \<Rightarrow> v) = Return p"
  shows "(\<forall>e w'. handle_ntfy_msg env (JDict items) w \<noteq> Some (Raise e, w')) \<and>
    (peer_stops env \<longrightarrow> (\<exists>w'. handle_ntfy_msg env (JDict items) w = Some (Return (), w'))) \<and>
    (\<forall>e c1 w1.
       4 \<le> p \<longrightarrow>
       connect env (configured_client env,
                    w @ [summary p items, Log INFO High_priority_detected]) =
         Some (Raise e, c1, w1) \<longrightarrow>
       handle_ntfy_msg env (JDict items) w =
         Some (Return (), w1 @ Log ERROR (AMI_originate_failed e) # closing_events c1)) \<and>
    (\<forall>e c1 w1 c2 w2.
       4 \<le> p \<longrightarrow>
       connect env (configured_client env,
                    w @ [summary p items, Log INFO High_priority_detected]) =
         Some (Return (), c1, w1) \<longrightarrow>
       originate_configured env (c1, w1) = Some (Raise e, c2, w2) \<longrightarrow>
       handle_ntfy_msg env (JDict items) w =
         Some (Return (), w2 @ Log ERROR (AMI_originate_failed e) # closing_events c2)) \<and>
    (\<forall>line rest w'.
       prefix data_prefix (strip (decode_utf8_ignore env line)) \<longrightarrow>
       json_loads env (drop 6 (strip (decode_utf8_ignore env line))) = Return (JDict items) \<longrightarrow>
       handle_ntfy_msg env (JDict items) w = Some (Return (), w') \<longrightarrow>
       stream_loop env (line # rest) w = stream_loop env rest w')"
proof -
  let ?w0 = "w @ [summary p items, Log INFO High_priority_detected]"
  let ?c = "configured_client env"
  have pr: "dict_get (JDict items) ''priority'' (JInt 3) =
      Return (case map_of items ''priority'' of None \<Rightarrow> JInt 3 | Some v \<Rightarrow> v)"
    by simp
  have low: "handle_ntfy_msg env (JDict items) w = Some (Return (), w @ [summary p items])"
    if "p < 4"
    using handle_low [OF pr assms that summary_fields, where w = w] by (simp add: summary_def)
  have high: "handle_ntfy_msg env (JDict items) w = dispatch env ?w0" if "4 \<le> p"
    using handle_high [OF pr assms that summary_fields, where w = w] by (simp add: summary_def)
  have never: "handle_ntfy_msg env (JDict items) w \<noteq> Some (Raise e, w')" for e w'
  proof (cases "p < 4")
    case True
    then show ?thesis by (simp add: low)
  next
    case False
    then have "4 \<le> p" by simp
    then show ?thesis using dispatch_never_raises [of env ?w0 "Raise e" w']
      by (auto simp: high)
  qed
  have returns: "\<exists>w'. handle_ntfy_msg env (JDict items) w = Some (Return (), w')"
    if "peer_stops env"
  proof (cases "p < 4")
    case True
    then show ?thesis by (simp add: low)
  next
    case False
    then have "4 \<le> p" by simp
    then show ?thesis using dispatch_terminates [OF that, of ?w0] by (simp add: high)
  qed
  have c_fail: "handle_ntfy_msg env (JDict items) w =
         Some (Return (), w1 @ Log ERROR (AMI_originate_failed e) # closing_events c1)"
    if "4 \<le> p" and cn: "connect env (?c, ?w0) = Some (Raise e, c1, w1)" for e c1 w1
    using dispatch_of_attempt [OF attempt_connect_raises [OF cn]] that(1)
    by (simp add: high)
  have o_fail: "handle_ntfy_msg env (JDict items) w =
         Some (Return (), w2 @ Log ERROR (AMI_originate_failed e) # closing_events c2)"
    if "4 \<le> p" and cn: "connect env (?c, ?w0) = Some (Return (), c1, w1)"
      and og: "originate_configured env (c1, w1) = Some (Raise e, c2, w2)" for e c1 w1 c2 w2
    using dispatch_of_attempt [OF attempt_originate_raises [OF cn og]] that(1)
    by (simp add: high)
  have goes_on: "stream_loop env (line # rest) w = stream_loop env rest w'"
    if "prefix data_prefix (strip (decode_utf8_ignore env line))"
      "json_loads env (drop 6 (strip (decode_utf8_ignore env line))) = Return (JDict items)"
      "handle_ntfy_msg env (JDict items) w = Some (Return (), w')" for line rest w'
    by (simp only: stream_forwarded [OF that(1,2)] bind_def that(3)) simp
  from never returns c_fail o_fail goes_on show ?thesis by blast
qed

lemma originate_fails_run:
  "connect originate_fails_env
     (configured_client originate_fails_env,
      [] @ [summary 5 [(''priority'', JInt 5)], Log INFO High_priority_detected]) =
   Some (Return (), (configured_client originate_fails_env)\<lparr>sock := Some 2\<rparr>,
     [summary 5 [(''priority'', JInt 5)], Log INFO High_priority_detected,
      Connect ''pbx'' 5038, Recv 2 4096,
      SendAll 2 (ami_line (login_action (configured_client originate_fails_env))),
      SetTimeout 2 10, Recv 2 4096])"
  "originate_configured originate_fails_env
     ((configured_client originate_fails_env)\<lparr>sock := Some 2\<rparr>,
      [summary 5 [(''priority'', JInt 5)], Log INFO High_priority_detected,
       Connect ''pbx'' 5038, Recv 2 4096,
       SendAll 2 (ami_line (login_action (configured_client originate_fails_env))),
       SetTimeout 2 10, Recv 2 4096]) =
   Some (Raise OSError, (configured_client originate_fails_env)\<lparr>sock := Some 2\<rparr>,
     [summary 5 [(''priority'', JInt 5)], Log INFO High_priority_detected,
      Connect ''pbx'' 5038, Recv 2 4096,
      SendAll 2 (ami_line (login_action (configured_client originate_fails_env))),
      SetTimeout 2 10, Recv 2 4096, SendAll 2 (originate_block originate_fails_env)])"
  by (simp_all add: run_defs originate_fails_env_def success_reply_def originate_block_def)

lemma down_connect:
  "connect down_env
     (configured_client down_env,
      [] @ [summary 5 [(''priority'', JInt 5)], Log INFO High_priority_detected]) =
   Some (Raise OSError, configured_client down_env,
     [summary 5 [(''priority'', JInt 5)], Log INFO High_priority_detected,
      Connect ''pbx'' 5038])"
  by (simp add: run_defs down_env_def)

text \<open>
  The alert of priority 5. With the server down \<open>connect\<close> raises; with a server that
  accepts the login and then drops the connection the originate step raises. In both
  runs the handler returns, the failure is in the log, and the line after the alert's
  frame is read. The handler returns as well when the priority is the text \<^verbatim>\<open>"5"\<close>.
\<close>

theorem dispatch_failure_does_not_propagate_witness:
  "py_int (int_str down_env)
     (case map_of [(''priority'', JInt 5)] ''priority'' of None \<Rightarrow> JInt 3 | Some v \<Rightarrow> v) =
     Return 5 \<and>
   py_int (int_str originate_fails_env)
     (case map_of [(''priority'', JInt 5)] ''priority'' of None \<Rightarrow> JInt 3 | Some v \<Rightarrow> v) =
     Return 5 \<and>
   py_int (int_str down_env)
     (case map_of [(''priority'', JStr ''5'')] ''priority'' of None \<Rightarrow> JInt 3 | Some v \<Rightarrow> v) =
     Return 5 \<and>
   peer_stops down_env \<and>
   (\<exists>w'. handle_ntfy_msg down_env (JDict [(''priority'', JStr ''5'')]) [] =
      Some (Return (), w')) \<and>
   handle_ntfy_msg down_env (JDict [(''priority'', JInt 5)]) [] =
     Some (Return (),
       [summary 5 [(''priority'', JInt 5)], Log INFO High_priority_detected,
        Connect ''pbx'' 5038, Log ERROR (AMI_originate_failed OSError)]) \<and>
   handle_ntfy_msg originate_fails_env (JDict [(''priority'', JInt 5)]) [] =
     Some (Return (),
       [summary 5 [(''priority'', JInt 5)], Log INFO High_priority_detected,
        Connect ''pbx'' 5038, Recv 2 4096,
        SendAll 2 (ami_line (login_action (configured_client originate_fails_env))),
        SetTimeout 2 10, Recv 2 4096, SendAll 2 (originate_block originate_fails_env),
        Log ERROR (AMI_originate_failed OSError),
        SendAll 2 (ami_line logoff_action), SockClose 2]) \<and>
   stream_loop down_env [''data: '' @ alert_bytes, ''data: {}''] [] =
     Some (Return (),
       [summary 5 [(''priority'', JInt 5)], Log INFO High_priority_detected,
        Connect ''pbx'' 5038, Log ERROR (AMI_originate_failed OSError),
        summary 3 []])"
proof -
  have p: "py_int (int_str env) (case map_of [(''priority'', JInt 5)] ''priority'' of
      None \<Rightarrow> JInt 3 | Some v \<Rightarrow> v) = Return 5" for env :: env by simp
  have q: "py_int (int_str down_env) (case map_of [(''priority'', JStr ''5'')] ''priority'' of
      None \<Rightarrow> JInt 3 | Some v \<Rightarrow> v) = Return 5"
    by (simp add: down_env_def env_of_net_def int_known_def)
  have five: "(4::int) \<le> 5" by simp
  note T_down = dispatch_failure_does_not_propagate [where env = down_env and w = "[]", OF p]
  note T_orig =
    dispatch_failure_does_not_propagate [where env = originate_fails_env and w = "[]", OF p]
  note T_str = dispatch_failure_does_not_propagate [where env = down_env and w = "[]", OF q]
  note a = T_down [THEN conjunct2, THEN conjunct2, THEN conjunct1, rule_format,
      OF five down_connect]
  note b = T_orig [THEN conjunct2, THEN conjunct2, THEN conjunct2, THEN conjunct1,
      rule_format, OF five originate_fails_run]
  note s = T_str [THEN conjunct2, THEN conjunct1, rule_format, OF peer_stops_down]
  have a': "handle_ntfy_msg down_env (JDict [(''priority'', JInt 5)]) [] =
     Some (Return (),
       [summary 5 [(''priority'', JInt 5)], Log INFO High_priority_detected,
        Connect ''pbx'' 5038, Log ERROR (AMI_originate_failed OSError)])"
    using a by (simp add: closing_events_def configured_client_def new_AMIClient_def)
  have b': "handle_ntfy_msg originate_fails_env (JDict [(''priority'', JInt 5)]) [] =
     Some (Return (),
       [summary 5 [(''priority'', JInt 5)], Log INFO High_priority_detected,
        Connect ''pbx'' 5038, Recv 2 4096,
        SendAll 2 (ami_line (login_action (configured_client originate_fails_env))),
        SetTimeout 2 10, Recv 2 4096, SendAll 2 (originate_block originate_fails_env),
        Log ERROR (AMI_originate_failed OSError),
        SendAll 2 (ami_line logoff_action), SockClose 2])"
    using b by (simp add: closing_events_def)
  have fr: "prefix data_prefix (strip (decode_utf8_ignore down_env (''data: '' @ alert_bytes)))"
    "json_loads down_env (drop 6 (strip (decode_utf8_ignore down_env (''data: '' @ alert_bytes)))) =
       Return (JDict [(''priority'', JInt 5)])"
    by (simp_all add: str_defs)
  have fr': "prefix data_prefix (strip (decode_utf8_ignore down_env ''data: {}''))"
    "json_loads down_env (drop 6 (strip (decode_utf8_ignore down_env ''data: {}''))) =
       Return (JDict [])"
    by (simp_all add: str_defs)
  note c = T_down [THEN conjunct2, THEN conjunct2, THEN conjunct2, THEN conjunct2,
      rule_format, OF fr a', of "[''data: {}'']"]
  have e: "handle_ntfy_msg down_env (JDict []) w = Some (Return (), w @ [summary 3 []])" for w
    by (simp add: handle_low [where pv = "JInt 3" and p = 3] summary_def)
  have c': "stream_loop down_env [''data: '' @ alert_bytes, ''data: {}''] [] =
     Some (Return (),
       [summary 5 [(''priority'', JInt 5)], Log INFO High_priority_detected,
        Connect ''pbx'' 5038, Log ERROR (AMI_originate_failed OSError),
        summary 3 []])"
    by (simp only: c stream_forwarded [OF fr']) (simp add: bind_def e ret_def)
  from p [of down_env] p [of originate_fails_env] q peer_stops_down s a' b' c'
  show ?thesis by simp
qed

section \<open>The supervisor\<close>

lemma handle_terminates:
  assumes "peer_stops env"
  shows "\<exists>y. handle_ntfy_msg env msg w = Some y"
proof (cases "dict_get msg ''priority'' (JInt 3)")
  case (Raise e)
  then show ?thesis by (simp add: handle_not_dict)
next
  case (Return pv)
  then obtain items where msg: "msg = JDict items" by (cases msg) auto
  show ?thesis
  proof (cases "py_int (int_str env) pv")
    case (Raise e)
    with Return show ?thesis
      by (simp add: handle_ntfy_msg_def bind_def lift_def)
  next
    case p: (Return p)
    show ?thesis
    proof (cases "p < 4")
      case True
      from handle_low [OF Return p True summary_fields [of items, folded msg], where w = w]
      show ?thesis by simp
    next
      case False
      then have "4 \<le> p" by simp
      note h = handle_high [OF Return p this summary_fields [of items, folded msg], where w = w]
      from dispatch_terminates [OF assms] obtain w' where
        "dispatch env
           (w @ [Log INFO (Ntfy_message p
                   (case map_of items ''title'' of None \<Rightarrow> JStr [] | Some t \<Rightarrow> t)
                   (case map_of items ''message'' of None \<Rightarrow> JStr [] | Some b \<Rightarrow> b)),
                 Log INFO High_priority_detected]) = Some (Return (), w')"
        by blast
      with h show ?thesis by simp
    qed
  qed
qed

lemma stream_terminates:
  assumes "peer_stops env"
  shows "\<exists>y. stream_loop env lines w = Some y"
proof (induction lines arbitrary: w)
  case Nil
  show ?case by (simp add: ret_def)
next
  case (Cons line rest)
  let ?d = "strip (decode_utf8_ignore env line)"
  show ?case
  proof (cases "prefix data_prefix ?d")
    case False
    show ?thesis using Cons [of w] by (simp only: stream_ignored [OF False])
  next
    case True
    show ?thesis
    proof (cases "json_loads env (drop 6 ?d)")
      case (Return msg)
      from handle_terminates [OF assms] obtain r w' where
        h: "handle_ntfy_msg env msg w = Some (r, w')" by (metis surj_pair)
      show ?thesis
        using Cons [of w']
        by (cases r) (simp_all only: stream_forwarded [OF True Return] bind_def h, simp_all)
    next
      case (Raise e)
      show ?thesis
      proof (cases "e = JSONDecodeError")
        case True
        with Raise have bad: "json_loads env (drop 6 ?d) = Raise JSONDecodeError" by simp
        show ?thesis
          using Cons by (simp only: stream_malformed [OF \<open>prefix data_prefix ?d\<close> bad])
      next
        case False
        with Raise \<open>prefix data_prefix ?d\<close> show ?thesis
          by (simp add: Let_def raise_def)
      qed
    qed
  qed
qed

lemma main_body_never_raises:
  "main_body env w \<noteq> Some (Raise e, w')"
  by (auto simp: main_body_def try_except_def bind_def io_def logging_def sleep_def
      split: option.splits result.splits prod.splits)

lemma subscribe_terminates:
  assumes "peer_stops env"
  shows "\<exists>y. subscribe_ntfy env w = Some y"
proof -
  let ?w1 = "w @ [Log INFO (Subscribing (sse_url (cfg env)))]"
  let ?w2 = "?w1 @ [HttpGet (sse_url (cfg env)) (ntfy_session (cfg env))]"
  show ?thesis
  proof (cases "open_error (http env (length ?w1))")
    case (Some e)
    then show ?thesis
      by (simp add: subscribe_ntfy_def bind_def io_def logging_def http_get_def)
  next
    case None
    from stream_terminates [OF assms] obtain r w3 where
      "stream_loop env (body_lines (http env (length ?w1))) ?w2 = Some (r, w3)"
      by (metis surj_pair)
    with None show ?thesis
      by (cases r)
         (auto simp: subscribe_ntfy_def bind_def io_def logging_def http_get_def ret_def
            raise_def split: option.splits)
  qed
qed

lemma main_body_terminates:
  assumes "peer_stops env"
  shows "\<exists>w'. main_body env w = Some (Return (), w')"
proof -
  from subscribe_terminates [OF assms] obtain r w1 where
    "subscribe_ntfy env w = Some (r, w1)" by (metis surj_pair)
  then show ?thesis
    by (cases r)
       (simp_all add: main_body_def try_except_def bind_def io_def logging_def sleep_def)
qed

lemma main_turns_never_raise:
  "main_turns n env w = Some (r, w') \<Longrightarrow> r = Return ()"
proof (induction n arbitrary: w)
  case 0
  then show ?case by (simp add: ret_def)
next
  case (Suc n)
  show ?case
  proof (cases "main_body env w")
    case None
    with Suc.prems show ?thesis by (simp add: bind_def)
  next
    case (Some y)
    then obtain r1 w1 where y: "main_body env w = Some (r1, w1)" by (cases y) auto
    with main_body_never_raises [of env w _ w1] obtain u where "r1 = Return u"
      by (cases r1) auto
    with y Suc.prems have "main_turns n env w1 = Some (r, w')" by (simp add: bind_def)
    then show ?thesis by (rule Suc.IH)
  qed
qed

lemma main_turns_terminate:
  assumes "peer_stops env"
  shows "\<exists>w'. main_turns n env w = Some (Return (), w')"
proof (induction n arbitrary: w)
  case 0
  show ?case by (simp add: ret_def)
next
  case (Suc n)
  from main_body_terminates [OF assms] obtain w1 where
    "main_body env w = Some (Return (), w1)" by blast
  with Suc [of w1] show ?case by (simp add: bind_def)
qed

lemma main_never_returns: "main env w = None"
proof (rule ccontr)
  assume "main env w \<noteq> None"
  then obtain y where y: "main env w = Some y" by auto
  have False
    by (rule main.raw_induct [where P = "\<lambda>env w y. False", OF _ y])
       (auto simp: main_body_never_raises split: option.splits result.splits prod.splits)
  then show False .
qed


lemma main_body_outcomes:
  "subscribe_ntfy env w = Some (Raise e, w1) \<Longrightarrow> isinstance_ClientError e \<Longrightarrow>
     main_body env w = Some (Return (), w1 @ [Log WARNING (SSE_connection_error e), Sleep 3])"
  "subscribe_ntfy env w = Some (Raise e, w1) \<Longrightarrow> \<not> isinstance_ClientError e \<Longrightarrow>
     main_body env w = Some (Return (), w1 @ [Log ERROR (Unexpected_error e), Sleep 5])"
  "subscribe_ntfy env w = Some (Return (), w1) \<Longrightarrow> main_body env w = Some (Return (), w1)"
  by (simp_all add: main_body_def try_except_def bind_def io_def logging_def sleep_def)

text \<open>
  C9. The supervisor has no terminal state: \<open>main\<close> neither returns nor raises, and
  no number of turns of its loop ends in an exception; when the peers stop, every
  number of turns completes, so that there is no last retry. A turn in which the
  subscriber raises an HTTP client error logs a warning and sleeps 3; a turn in which
  it raises anything else logs the error and sleeps 5; in both cases, and when the
  subscriber returns, the turns that remain run from there, beginning with a new
  subscription.
\<close>

theorem supervisor_runs_forever:
  "main env w = None \<and>
   (\<forall>n r w'. main_turns n env w = Some (r, w') \<longrightarrow> r = Return ()) \<and>
   (peer_stops env \<longrightarrow> (\<forall>n. \<exists>w'. main_turns n env w = Some (Return (), w'))) \<and>
   (\<forall>e w1. subscribe_ntfy env w = Some (Raise e, w1) \<longrightarrow> isinstance_ClientError e \<longrightarrow>
      main_body env w =
        Some (Return (), w1 @ [Log WARNING (SSE_connection_error e), Sleep 3]) \<and>
      (\<forall>n. main_turns (Suc n) env w =
             main_turns n env (w1 @ [Log WARNING (SSE_connection_error e), Sleep 3]))) \<and>
   (\<forall>e w1. subscribe_ntfy env w = Some (Raise e, w1) \<longrightarrow> \<not> isinstance_ClientError e \<longrightarrow>
      main_body env w =
        Some (Return (), w1 @ [Log ERROR (Unexpected_error e), Sleep 5]) \<and>
      (\<forall>n. main_turns (Suc n) env w =
             main_turns n env (w1 @ [Log ERROR (Unexpected_error e), Sleep 5]))) \<and>
   (\<forall>w1. subscribe_ntfy env w = Some (Return (), w1) \<longrightarrow>
      main_body env w = Some (Return (), w1) \<and>
      (\<forall>n. main_turns (Suc n) env w = main_turns n env w1))"
proof -
  have turn: "main_turns (Suc n) env w = main_turns n env w2"
    if "main_body env w = Some (Return (), w2)" for n w2
    using that by (simp add: bind_def)
  have a: "main env w = None" by (rule main_never_returns)
  have b: "r = Return ()" if "main_turns n env w = Some (r, w')" for n r w'
    using that by (rule main_turns_never_raise)
  have c: "\<exists>w'. main_turns n env w = Some (Return (), w')" if "peer_stops env" for n
    using that by (rule main_turns_terminate)
  have d: "main_body env w =
        Some (Return (), w1 @ [Log WARNING (SSE_connection_error e), Sleep 3]) \<and>
      (\<forall>n. main_turns (Suc n) env w =
             main_turns n env (w1 @ [Log WARNING (SSE_connection_error e), Sleep 3]))"
    if "subscribe_ntfy env w = Some (Raise e, w1)" "isinstance_ClientError e" for e w1
    using main_body_outcomes(1) [OF that] turn by simp
  have e: "main_body env w =
        Some (Return (), w1 @ [Log ERROR (Unexpected_error e), Sleep 5]) \<and>
      (\<forall>n. main_turns (Suc n) env w =
             main_turns n env (w1 @ [Log ERROR (Unexpected_error e), Sleep 5]))"
    if "subscribe_ntfy env w = Some (Raise e, w1)" "\<not> isinstance_ClientError e" for e w1
    using main_body_outcomes(2) [OF that] turn by simp
  have f: "main_body env w = Some (Return (), w1) \<and>
      (\<forall>n. main_turns (Suc n) env w = main_turns n env w1)"
    if "subscribe_ntfy env w = Some (Return (), w1)" for w1
    using main_body_outcomes(3) [OF that] turn by simp
  from a b c d e f show ?thesis by blast
qed

lemmas subscribe_defs =
  subscribe_ntfy_def bind_def io_def logging_def http_get_def ret_def raise_def sse_url_def
  rstrip_slash_def ntfy_session_def default_config_def no_stream_def cut_stream_def
  strip_def is_space_def ascii_def data_prefix_def

lemma down_subscribe:
  "subscribe_ntfy down_env w =
     Some (Raise ClientError,
       w @ [Log INFO (Subscribing ''https://ntfy.sh/alerts/sse''),
            HttpGet ''https://ntfy.sh/alerts/sse'' None])"
  by (simp add: subscribe_defs down_env_def env_of_net_def)

lemma cut_subscribe:
  "subscribe_ntfy cut_env [] =
     Some (Raise OSError,
       [Log INFO (Subscribing ''https://ntfy.sh/alerts/sse''),
        HttpGet ''https://ntfy.sh/alerts/sse'' None])"
  by (simp add: subscribe_defs cut_env_def)

text \<open>
  The ntfy server refuses the request, twice: two warnings, two sleeps of 3, and the
  second turn subscribes again. A stream cut with an \<^verbatim>\<open>OSError\<close>: an error line and a
  sleep of 5.
\<close>

theorem supervisor_runs_forever_witness:
  "main down_env [] = None \<and>
   peer_stops down_env \<and>
   isinstance_ClientError ClientError \<and>
   main_turns 2 down_env [] =
     Some (Return (),
       [Log INFO (Subscribing ''https://ntfy.sh/alerts/sse''),
        HttpGet ''https://ntfy.sh/alerts/sse'' None,
        Log WARNING (SSE_connection_error ClientError), Sleep 3,
        Log INFO (Subscribing ''https://ntfy.sh/alerts/sse''),
        HttpGet ''https://ntfy.sh/alerts/sse'' None,
        Log WARNING (SSE_connection_error ClientError), Sleep 3]) \<and>
   \<not> isinstance_ClientError OSError \<and>
   main_body cut_env [] =
     Some (Return (),
       [Log INFO (Subscribing ''https://ntfy.sh/alerts/sse''),
        HttpGet ''https://ntfy.sh/alerts/sse'' None,
        Log ERROR (Unexpected_error OSError), Sleep 5])"
proof -
  have ce: "isinstance_ClientError ClientError" and os: "\<not> isinstance_ClientError OSError"
    by simp_all
  note T = supervisor_runs_forever [of down_env]
  note never = T [of "[]", THEN conjunct1]
  note warn = T [THEN conjunct2, THEN conjunct2, THEN conjunct2, THEN conjunct1,
      rule_format, OF down_subscribe ce]
  note err = supervisor_runs_forever [of cut_env "[]", THEN conjunct2, THEN conjunct2,
      THEN conjunct2, THEN conjunct2, THEN conjunct1, rule_format, OF cut_subscribe os,
      THEN conjunct1]
  have two: "main_turns 2 down_env [] = main_turns (Suc (Suc 0)) down_env []"
    by (simp add: numeral_2_eq_2)
  have turns: "main_turns 2 down_env [] =
     Some (Return (),
       [Log INFO (Subscribing ''https://ntfy.sh/alerts/sse''),
        HttpGet ''https://ntfy.sh/alerts/sse'' None,
        Log WARNING (SSE_connection_error ClientError), Sleep 3,
        Log INFO (Subscribing ''https://ntfy.sh/alerts/sse''),
        HttpGet ''https://ntfy.sh/alerts/sse'' None,
        Log WARNING (SSE_connection_error ClientError), Sleep 3])"
    unfolding two
    by (simp only: warn [THEN conjunct2, rule_format]) (simp add: ret_def)
  from never peer_stops_down ce os turns err show ?thesis by simp
qed

end
